theory Spec2Isabelle
  imports Main
begin

section \<open>Cell values\<close>

text \<open>
  A cell of the working table holds a Python object. The constructors are the kinds of
  object a document of the store or an uploaded sheet can carry, and the ones pandas
  puts in their place when it builds a typed column: \<open>None\<close>; the float \<open>nan\<close>, which
  marks a missing number; \<open>NaT\<close>, which marks a missing timestamp; booleans; integers;
  finite floats, kept as the text \<open>repr\<close> gives for them (\<open>1.0\<close>, \<open>2.5e-07\<close>); strings; naive
  \<open>datetime\<close> objects; pandas \<open>Timestamp\<close>s, which are what the cells of a \<open>datetime64\<close>
  column are; lists and dictionaries with string keys (as every document of the store
  has); and any other object (an \<open>ObjectId\<close>, say), kept as the two texts \<open>str\<close> and
  \<open>repr\<close> give for it.

  The dtype of a column is read off its cells: a column is \<open>datetime64\<close> when each of its
  cells is a \<open>Timestamp\<close> or \<open>NaT\<close>, a \<open>float64\<close> column holds floats and \<open>nan\<close>, an
  \<open>int64\<close> column integers, and a column that mixes kinds is an \<open>object\<close> column.
  Strings are lists of 8-bit characters, read as the code points 0 to 255.
\<close>

record datetime =
  year :: nat
  month :: nat
  day :: nat
  hour :: nat
  minute :: nat
  second :: nat
  microsecond :: nat

datatype val =
    VNone
  | VNaN
  | VBool bool
  | VInt int
  | VFloat string
  | VStr string
  | VTime datetime
  | VTimestamp datetime
  | VNaT
  | VOther string string
  | VList "val list"
  | VDict "(string \<times> val) list"

section \<open>Python's \<open>str\<close> and \<open>repr\<close>\<close>

text \<open>The decimal digits are the code points 48 to 57.\<close>

definition digit_char :: "nat \<Rightarrow> char" where
  "digit_char n = char_of (48 + n)"

fun nat_repr :: "nat \<Rightarrow> string" where
  "nat_repr n = (if n < 10 then [digit_char n] else nat_repr (n div 10) @ [digit_char (n mod 10)])"

declare nat_repr.simps [simp del]

definition int_repr :: "int \<Rightarrow> string" where
  "int_repr i = (if i < 0 then CHR ''-'' # nat_repr (nat (- i)) else nat_repr (nat i))"

text \<open>\<open>'%0kd' % n\<close>: decimal, padded with zeros on the left to width \<open>k\<close>.\<close>

definition zero_pad :: "nat \<Rightarrow> nat \<Rightarrow> string" where
  "zero_pad k n = replicate (k - length (nat_repr n)) CHR ''0'' @ nat_repr n"

definition hex_char :: "nat \<Rightarrow> char" where
  "hex_char n = (if n < 10 then digit_char n else char_of (87 + n))"

text \<open>The two lower-case hexadecimal digits of a character's code point.\<close>

definition hex2 :: "char \<Rightarrow> string" where
  "hex2 c = [hex_char ((of_char c :: nat) div 16), hex_char ((of_char c :: nat) mod 16)]"

text \<open>
  \<open>datetime.isoformat(sep)\<close> of a naive datetime: \<open>YYYY-MM-DD\<close>, the separator,
  \<open>HH:MM:SS\<close>, and the microseconds as six digits when they are not zero.
  \<open>str\<close> of a datetime is \<open>isoformat(' ')\<close>.
\<close>

definition isoformat_sep :: "char \<Rightarrow> datetime \<Rightarrow> string" where
  "isoformat_sep sep t =
     zero_pad 4 (year t) @ ''-'' @ zero_pad 2 (month t) @ ''-'' @ zero_pad 2 (day t) @ [sep] @
     zero_pad 2 (hour t) @ '':'' @ zero_pad 2 (minute t) @ '':'' @ zero_pad 2 (second t) @
     (if microsecond t \<noteq> 0 then ''.'' @ zero_pad 6 (microsecond t) else [])"

definition isoformat :: "datetime \<Rightarrow> string" where
  "isoformat t = isoformat_sep CHR ''T'' t"

definition datetime_str :: "datetime \<Rightarrow> string" where
  "datetime_str t = isoformat_sep CHR '' '' t"

text \<open>\<open>repr\<close> of a datetime drops a zero microsecond, and then a zero second.\<close>

definition datetime_repr :: "datetime \<Rightarrow> string" where
  "datetime_repr t =
     ''datetime.datetime('' @ nat_repr (year t) @ '', '' @ nat_repr (month t) @ '', '' @
     nat_repr (day t) @ '', '' @ nat_repr (hour t) @ '', '' @ nat_repr (minute t) @
     (if second t \<noteq> 0 \<or> microsecond t \<noteq> 0 then '', '' @ nat_repr (second t) else []) @
     (if microsecond t \<noteq> 0 then '', '' @ nat_repr (microsecond t) else []) @ '')''"

text \<open>
  \<open>repr\<close> of a string. The quote is the double quote when the string holds a single
  quote and no double quote, the single quote otherwise. The backslash and the quote get
  a backslash, tab, newline and carriage return their letter, every other non-printable
  code point below 256 becomes \<open>\xhh\<close>.
\<close>

definition printable :: "char \<Rightarrow> bool" where
  "printable c \<longleftrightarrow>
     (let n = (of_char c :: nat) in (32 \<le> n \<and> n < 127) \<or> (161 \<le> n \<and> n \<noteq> 173))"

definition repr_char :: "char \<Rightarrow> char \<Rightarrow> string" where
  "repr_char q c =
     (if c = q \<or> c = CHR 0x5C then [CHR 0x5C, c]
      else if c = CHR 0x09 then [CHR 0x5C, CHR ''t'']
      else if c = CHR 0x0A then [CHR 0x5C, CHR ''n'']
      else if c = CHR 0x0D then [CHR 0x5C, CHR ''r'']
      else if printable c then [c]
      else [CHR 0x5C, CHR ''x''] @ hex2 c)"

definition str_repr :: "string \<Rightarrow> string" where
  "str_repr s =
     (let q = (if CHR 0x27 \<in> set s \<and> CHR 0x22 \<notin> set s then CHR 0x22 else CHR 0x27)
      in [q] @ concat (map (repr_char q) s) @ [q])"

text \<open>\<open>repr\<close> of a value; the elements of a list and the items of a dictionary are joined by \<open>', '\<close>.\<close>

fun py_repr :: "val \<Rightarrow> string"
  and py_repr_list :: "val list \<Rightarrow> string"
  and py_repr_items :: "(string \<times> val) list \<Rightarrow> string" where
  "py_repr VNone = ''None''"
| "py_repr VNaN = ''nan''"
| "py_repr (VBool b) = (if b then ''True'' else ''False'')"
| "py_repr (VInt i) = int_repr i"
| "py_repr (VStr s) = str_repr s"
| "py_repr (VFloat r) = r"
| "py_repr (VTime t) = datetime_repr t"
| "py_repr (VTimestamp t) = ''Timestamp('' @ [CHR 0x27] @ datetime_str t @ [CHR 0x27] @ '')''"
| "py_repr VNaT = ''NaT''"
| "py_repr (VOther s r) = r"
| "py_repr (VList xs) = ''['' @ py_repr_list xs @ '']''"
| "py_repr (VDict kvs) = ''{'' @ py_repr_items kvs @ ''}''"
| "py_repr_list [] = []"
| "py_repr_list [x] = py_repr x"
| "py_repr_list (x # y # xs) = py_repr x @ '', '' @ py_repr_list (y # xs)"
| "py_repr_items [] = []"
| "py_repr_items [(k, v)] = str_repr k @ '': '' @ py_repr v"
| "py_repr_items ((k, v) # p # kvs) = str_repr k @ '': '' @ py_repr v @ '', '' @ py_repr_items (p # kvs)"

fun py_str :: "val \<Rightarrow> string" where
  "py_str (VStr s) = s"
| "py_str (VTime t) = datetime_str t"
| "py_str (VTimestamp t) = datetime_str t"
| "py_str (VOther s r) = s"
| "py_str v = py_repr v"

section \<open>The data frame\<close>

text \<open>
  A frame has an index (the rows, numbered from 0, so only their number matters here)
  and a sequence of labelled columns. Labels may repeat: \<open>rename\<close> can produce that.
\<close>

record dataframe =
  nrows :: nat
  cols :: "(string \<times> val list) list"

definition columns :: "dataframe \<Rightarrow> string list" where
  "columns df = map fst (cols df)"

text \<open>The frames the spec calls tables: labels are unique and every column has one value per row.\<close>

definition table :: "dataframe \<Rightarrow> bool" where
  "table df \<longleftrightarrow> distinct (columns df) \<and> list_all (\<lambda>c. length (snd c) = nrows df) (cols df)"

datatype error =
    KeyError "string list"
  | TypeError string
  | BulkWriteError
  | DuplicateLabel string
  | OutsideModel string

text \<open>
  \<open>data[c]\<close>: a missing label raises \<open>KeyError\<close>. A label carried by several columns
  selects a sub-frame in pandas; what the callers below would do with one is outside this
  model, which stops there with \<open>DuplicateLabel\<close>.
\<close>

definition df_getitem :: "dataframe \<Rightarrow> string \<Rightarrow> error + val list" where
  "df_getitem df c =
     (case filter (\<lambda>p. fst p = c) (cols df) of
        [] \<Rightarrow> Inl (KeyError [c])
      | [p] \<Rightarrow> Inr (snd p)
      | _ \<Rightarrow> Inl (DuplicateLabel c))"

text \<open>
  \<open>data[c] = values\<close>: an existing label keeps its position and takes the new values
  (every column carrying the label does), a new label is appended as the last column.
\<close>

definition df_setitem :: "dataframe \<Rightarrow> string \<Rightarrow> val list \<Rightarrow> dataframe" where
  "df_setitem df c vs =
     (if c \<in> set (columns df)
      then df\<lparr>cols := map (\<lambda>p. if fst p = c then (c, vs) else p) (cols df)\<rparr>
      else df\<lparr>cols := cols df @ [(c, vs)]\<rparr>)"

text \<open>
  \<open>data.drop(columns=labels)\<close> with the default \<open>errors='raise'\<close>: any label that is not
  a column raises \<open>KeyError\<close> naming the missing labels; otherwise a new frame without the
  named columns is returned. The receiver is never changed.
\<close>

definition df_drop :: "dataframe \<Rightarrow> string list \<Rightarrow> error + dataframe" where
  "df_drop df labels =
     (let missing = filter (\<lambda>l. l \<notin> set (columns df)) labels
      in if missing \<noteq> [] then Inl (KeyError missing)
         else Inr (df\<lparr>cols := filter (\<lambda>p. fst p \<notin> set labels) (cols df)\<rparr>))"

text \<open>
  \<open>data.rename(columns={old: new})\<close> with the default \<open>errors='ignore'\<close>: every column
  labelled \<open>old\<close> is relabelled, values and positions stay, a label that is not a column
  changes nothing and raises nothing. A new frame is returned.
\<close>

definition df_rename :: "dataframe \<Rightarrow> string \<Rightarrow> string \<Rightarrow> dataframe" where
  "df_rename df old new =
     df\<lparr>cols := map (\<lambda>p. if fst p = old then (new, snd p) else p) (cols df)\<rparr>"

section \<open>The column operations of \<open>gui_main.py\<close>\<close>

text \<open>
  Several of the functions assign into the frame they are given before they return, and
  the caller's session still refers to that object. Each function is therefore modelled
  as returning a pair: the state of the argument object when the call ends, and the
  outcome of the call (the exception raised, or the frame returned).
\<close>

type_synonym 'a outcome = "dataframe \<times> (error + 'a)"

text \<open>
  The parameter \<open>default_value\<close> is a string: the only caller passes the text of an input
  field.
\<close>

definition add_column :: "dataframe \<Rightarrow> string \<Rightarrow> string \<Rightarrow> dataframe outcome" where
  "add_column data column_name default_value =
     (let data' = df_setitem data column_name (replicate (nrows data) (VStr default_value))
      in (data', Inr data'))"

definition remove_columns :: "dataframe \<Rightarrow> string list \<Rightarrow> dataframe outcome" where
  "remove_columns data cs = (data, df_drop data cs)"

definition rename_column :: "dataframe \<Rightarrow> string \<Rightarrow> string \<Rightarrow> dataframe outcome" where
  "rename_column data old_column_name new_column_name =
     (data, Inr (df_rename data old_column_name new_column_name))"

subsection \<open>Typed columns\<close>

text \<open>
  A column whose cells are all \<open>Timestamp\<close> or \<open>NaT\<close> is a \<open>datetime64\<close> column. (For a
  column without rows, or with \<open>NaT\<close> only, what follows gives the same result whichever
  way it is read.)
\<close>

definition datetime64 :: "val list \<Rightarrow> bool" where
  "datetime64 vs \<longleftrightarrow> list_all (\<lambda>v. case v of VTimestamp t \<Rightarrow> True | VNaT \<Rightarrow> True | _ \<Rightarrow> False) vs"

definition timestamps :: "val list \<Rightarrow> datetime list" where
  "timestamps vs = concat (map (\<lambda>v. case v of VTimestamp t \<Rightarrow> [t] | _ \<Rightarrow> []) vs)"

text \<open>The missing values: \<open>pd.isna\<close> is true of \<open>None\<close>, \<open>nan\<close> and \<open>NaT\<close>.\<close>

definition isna :: "val \<Rightarrow> bool" where
  "isna v \<longleftrightarrow> v = VNone \<or> v = VNaN \<or> v = VNaT"

subsection \<open>\<open>astype(str)\<close>\<close>

text \<open>
  \<open>series.astype(str)\<close> gives every cell its \<open>str\<close>, except in a \<open>datetime64\<close> column,
  which is formatted as a whole: when every timestamp of the column is at midnight only
  the date is written; otherwise date and time are written, with no fraction of a second
  when no timestamp has one, three digits when milliseconds suffice for all of them and
  six digits otherwise. \<open>NaT\<close> is written \<open>NaT\<close>.
\<close>

definition midnight :: "datetime \<Rightarrow> bool" where
  "midnight t \<longleftrightarrow> hour t = 0 \<and> minute t = 0 \<and> second t = 0 \<and> microsecond t = 0"

definition fraction_digits :: "datetime list \<Rightarrow> nat" where
  "fraction_digits ts =
     (if list_ex (\<lambda>t. microsecond t mod 1000 \<noteq> 0) ts then 6
      else if list_ex (\<lambda>t. microsecond t \<noteq> 0) ts then 3 else 0)"

definition format_timestamp :: "bool \<Rightarrow> nat \<Rightarrow> datetime \<Rightarrow> string" where
  "format_timestamp dates_only digits t =
     zero_pad 4 (year t) @ ''-'' @ zero_pad 2 (month t) @ ''-'' @ zero_pad 2 (day t) @
     (if dates_only then []
      else '' '' @ zero_pad 2 (hour t) @ '':'' @ zero_pad 2 (minute t) @ '':'' @ zero_pad 2 (second t) @
           (if digits = 6 then ''.'' @ zero_pad 6 (microsecond t)
            else if digits = 3 then ''.'' @ zero_pad 3 (microsecond t div 1000)
            else []))"

definition astype_str :: "val list \<Rightarrow> string list" where
  "astype_str vs =
     (if datetime64 vs
      then map (\<lambda>v. case v of
                      VTimestamp t \<Rightarrow>
                        format_timestamp (list_all midnight (timestamps vs))
                          (fraction_digits (timestamps vs)) t
                    | _ \<Rightarrow> ''NaT'') vs
      else map py_str vs)"

subsection \<open>Conditional update\<close>

text \<open>
  \<open>data[column] == condition\<close>. A missing \<open>condition\<close> (\<open>None\<close>, \<open>nan\<close>, \<open>NaT\<close>) equals
  nothing, not even a missing cell. A string equals the cells that hold that string; but
  a \<open>datetime64\<close> column reads the string as a date first and compares its timestamps with
  that date, and equals nothing when the string does not read as one. The reading of a
  text as a date is pandas' own parser, a parameter here: \<open>parse s\<close> is the naive timestamp
  that the text \<open>s\<close> is read as, if any. Conditions of other kinds are outside this model.
\<close>

definition series_eq :: "(string \<Rightarrow> datetime option) \<Rightarrow> val list \<Rightarrow> val \<Rightarrow> error + bool list" where
  "series_eq parse vs condition =
     (if isna condition then Inr (map (\<lambda>v. False) vs)
      else case condition of
             VStr s \<Rightarrow>
               (if datetime64 vs
                then (case parse s of
                        None \<Rightarrow> Inr (map (\<lambda>v. False) vs)
                      | Some t \<Rightarrow> Inr (map (\<lambda>v. v = VTimestamp t) vs))
                else Inr (map (\<lambda>v. v = VStr s) vs))
           | _ \<Rightarrow> Inl (OutsideModel ''condition''))"

text \<open>
  \<open>data.loc[mask, column] = new_value\<close> with a string. Nothing is assigned when the mask
  selects no row. Otherwise the selected cells take the string; but a \<open>datetime64\<close> column
  reads the string as a date and stores that timestamp, and only when the string does not
  read as a date does it become an \<open>object\<close> column that holds the string beside its
  timestamps. New values of other kinds are outside this model.
\<close>

definition loc_setitem :: "(string \<Rightarrow> datetime option) \<Rightarrow> val list \<Rightarrow> bool list \<Rightarrow> val \<Rightarrow> error + val list" where
  "loc_setitem parse vs selected new_value =
     (case new_value of
        VStr n \<Rightarrow>
          (if \<not> list_ex (\<lambda>m. m) selected then Inr vs
           else let x = (if datetime64 vs
                         then (case parse n of None \<Rightarrow> VStr n | Some t \<Rightarrow> VTimestamp t)
                         else VStr n)
                in Inr (map (\<lambda>(m, v). if m then x else v) (zip selected vs)))
      | _ \<Rightarrow> Inl (OutsideModel ''new_value''))"

definition conditional_update ::
  "(string \<Rightarrow> datetime option) \<Rightarrow> dataframe \<Rightarrow> string \<Rightarrow> val \<Rightarrow> val \<Rightarrow> dataframe outcome" where
  "conditional_update parse data column condition new_value =
     (case df_getitem data column of
        Inl e \<Rightarrow> (data, Inl e)
      | Inr vs \<Rightarrow>
          (case series_eq parse vs condition of
             Inl e \<Rightarrow> (data, Inl e)
           | Inr selected \<Rightarrow>
               (case loc_setitem parse vs selected new_value of
                  Inl e \<Rightarrow> (data, Inl e)
                | Inr vs' \<Rightarrow>
                    (let data' = df_setitem data column vs' in (data', Inr data')))))"

subsection \<open>Merging\<close>

text \<open>
  \<open>data[col1].astype(str) + data[col2].astype(str)\<close> concatenates the two series of texts
  row by row; the result is assigned to the new label, and then, when asked, the two
  source labels are dropped.
\<close>

definition merge_columns ::
  "dataframe \<Rightarrow> string \<Rightarrow> string \<Rightarrow> string \<Rightarrow> bool \<Rightarrow> dataframe outcome" where
  "merge_columns data col1 col2 new_col_name drop_originals =
     (case df_getitem data col1 of
        Inl e \<Rightarrow> (data, Inl e)
      | Inr a \<Rightarrow>
          (case df_getitem data col2 of
             Inl e \<Rightarrow> (data, Inl e)
           | Inr b \<Rightarrow>
               (let data' = df_setitem data new_col_name
                              (map (\<lambda>(x, y). VStr (x @ y)) (zip (astype_str a) (astype_str b)))
                in if drop_originals then (data', df_drop data' [col1, col2])
                   else (data', Inr data'))))"

section \<open>Serialisation for the query engine\<close>

text \<open>
  \<open>json.dumps(value, default=str)\<close> with the defaults of the \<open>json\<close> module: ASCII only
  output, \<open>', '\<close> between items and \<open>': '\<close> after a key, \<open>nan\<close> written as the token
  \<open>NaN\<close>. A string has its double quote and backslash escaped, the control characters
  backspace, form feed, newline, carriage return and tab written with their letter, and
  every other code point outside \<open>' '\<close> to \<open>'~'\<close> written as \<open>\u00hh\<close>. An object that
  JSON has no form for is passed to \<open>default\<close>, here \<open>str\<close>, and the string it returns
  is encoded.
\<close>

definition json_escape_char :: "char \<Rightarrow> string" where
  "json_escape_char c =
     (if c = CHR 0x22 then [CHR 0x5C, CHR 0x22]
      else if c = CHR 0x5C then [CHR 0x5C, CHR 0x5C]
      else if c = CHR 0x08 then [CHR 0x5C, CHR ''b'']
      else if c = CHR 0x0C then [CHR 0x5C, CHR ''f'']
      else if c = CHR 0x0A then [CHR 0x5C, CHR ''n'']
      else if c = CHR 0x0D then [CHR 0x5C, CHR ''r'']
      else if c = CHR 0x09 then [CHR 0x5C, CHR ''t'']
      else if 32 \<le> (of_char c :: nat) \<and> (of_char c :: nat) \<le> 126 then [c]
      else [CHR 0x5C, CHR ''u'', CHR ''0'', CHR ''0''] @ hex2 c)"

definition encode_basestring_ascii :: "string \<Rightarrow> string" where
  "encode_basestring_ascii s = [CHR 0x22] @ concat (map json_escape_char s) @ [CHR 0x22]"

fun json_dumps :: "val \<Rightarrow> string"
  and json_dumps_list :: "val list \<Rightarrow> string"
  and json_dumps_items :: "(string \<times> val) list \<Rightarrow> string" where
  "json_dumps VNone = ''null''"
| "json_dumps VNaN = ''NaN''"
| "json_dumps (VBool b) = (if b then ''true'' else ''false'')"
| "json_dumps (VInt i) = int_repr i"
| "json_dumps (VStr s) = encode_basestring_ascii s"
| "json_dumps (VFloat r) = r"
| "json_dumps (VTime t) = encode_basestring_ascii (py_str (VTime t))"
| "json_dumps (VTimestamp t) = encode_basestring_ascii (py_str (VTimestamp t))"
| "json_dumps VNaT = encode_basestring_ascii (py_str VNaT)"
| "json_dumps (VOther s r) = encode_basestring_ascii (py_str (VOther s r))"
| "json_dumps (VList xs) = ''['' @ json_dumps_list xs @ '']''"
| "json_dumps (VDict kvs) = ''{'' @ json_dumps_items kvs @ ''}''"
| "json_dumps_list [] = []"
| "json_dumps_list [x] = json_dumps x"
| "json_dumps_list (x # y # xs) = json_dumps x @ '', '' @ json_dumps_list (y # xs)"
| "json_dumps_items [] = []"
| "json_dumps_items [(k, v)] = encode_basestring_ascii k @ '': '' @ json_dumps v"
| "json_dumps_items ((k, v) # p # kvs) =
     encode_basestring_ascii k @ '': '' @ json_dumps v @ '', '' @ json_dumps_items (p # kvs)"

text \<open>
  \<open>Timestamp\<close> and the type of \<open>NaT\<close> are subclasses of \<open>datetime\<close>, so the second
  branch of the function takes them too; \<open>NaT.isoformat()\<close> is the text \<open>NaT\<close>.
\<close>

fun serialize_complex_data :: "val \<Rightarrow> val" where
  "serialize_complex_data (VList xs) = VStr (json_dumps (VList xs))"
| "serialize_complex_data (VDict kvs) = VStr (json_dumps (VDict kvs))"
| "serialize_complex_data (VTime t) = VStr (isoformat t)"
| "serialize_complex_data (VTimestamp t) = VStr (isoformat t)"
| "serialize_complex_data VNaT = VStr ''NaT''"
| "serialize_complex_data v = v"

text \<open>\<open>data.applymap(f)\<close> builds a new frame with \<open>f\<close> applied to every cell.\<close>

definition applymap :: "(val \<Rightarrow> val) \<Rightarrow> dataframe \<Rightarrow> dataframe" where
  "applymap f df = df\<lparr>cols := map (\<lambda>p. (fst p, map f (snd p))) (cols df)\<rparr>"

definition serialize_dataframe :: "dataframe \<Rightarrow> dataframe" where
  "serialize_dataframe data = applymap serialize_complex_data data"

text \<open>
  The SQL engine (\<open>pandasql.sqldf\<close> over SQLite) is a parameter: given the query and the
  frame bound to the name \<open>data\<close> it returns a frame, or raises an exception, of which
  the model keeps the message.
\<close>

type_synonym engine = "string \<Rightarrow> dataframe \<Rightarrow> string + dataframe"

definition execute_sql_query :: "engine \<Rightarrow> dataframe \<Rightarrow> string \<Rightarrow> dataframe \<times> (string + dataframe)" where
  "execute_sql_query sqldf data query =
     (let serialized_data = serialize_dataframe data
      in (data, sqldf query serialized_data))"

section \<open>Documents and the store\<close>

text \<open>A document is a dictionary: field names with their values, in insertion order.\<close>

type_synonym document = "(string \<times> val) list"

text \<open>
  \<open>pd.DataFrame(records)\<close> for a list of dictionaries: the columns are the keys in the
  order in which they are first met, there is one row per dictionary, and a key that a
  dictionary lacks gives \<open>nan\<close> in its row. pandas then infers a dtype for each column
  from its values and converts them to it (integers beside a missing entry become floats,
  datetimes become \<open>Timestamp\<close>s with \<open>NaT\<close> for the missing ones, a column of mixed kinds
  is left as it is). That conversion of one column's values is the parameter \<open>convert\<close>.
\<close>

definition add_keys :: "string list \<Rightarrow> string list \<Rightarrow> string list" where
  "add_keys seen ks = fold (\<lambda>k acc. if k \<in> set acc then acc else acc @ [k]) ks seen"

definition field_column :: "document list \<Rightarrow> string \<Rightarrow> val list" where
  "field_column records k = map (\<lambda>d. case map_of d k of None \<Rightarrow> VNaN | Some v \<Rightarrow> v) records"

definition DataFrame :: "(val list \<Rightarrow> val list) \<Rightarrow> document list \<Rightarrow> dataframe" where
  "DataFrame convert records =
     (let ks = fold (\<lambda>d acc. add_keys acc (map fst d)) records []
      in \<lparr>nrows = length records,
          cols = map (\<lambda>k. (k, convert (field_column records k))) ks\<rparr>)"


text \<open>
  \<open>data.to_dict('records')\<close> zips the column labels with the tuples of
  \<open>itertuples(index=False)\<close>, which zips the columns: a frame without columns gives no
  tuple at all, whatever the length of its index. In a dictionary a repeated key keeps
  its first position and takes the last value.
\<close>

definition dict_set :: "document \<Rightarrow> string \<Rightarrow> val \<Rightarrow> document" where
  "dict_set d k v =
     (if k \<in> fst ` set d then map (\<lambda>p. if fst p = k then (k, v) else p) d else d @ [(k, v)])"

definition to_dict_records :: "dataframe \<Rightarrow> document list" where
  "to_dict_records df =
     (if cols df = [] then []
      else map (\<lambda>i. fold (\<lambda>p d. dict_set d (fst p) (snd p ! i)) (cols df) []) [0..<nrows df])"

text \<open>
  \<open>collection.insert_many(documents)\<close> refuses an empty list with \<open>TypeError\<close> before
  anything is sent. Otherwise the documents are inserted in order; one without \<open>_id\<close>
  gets a new identifier (from the generator \<open>new_id\<close>, a parameter), and an identifier
  that the collection already holds stops the insertion with \<open>BulkWriteError\<close>, the
  documents before it staying inserted. A stored document has \<open>_id\<close> as its first field.
\<close>

fun insert_ordered :: "(nat \<Rightarrow> val) \<Rightarrow> document list \<Rightarrow> document list \<Rightarrow> document list \<times> (error + unit)" where
  "insert_ordered new_id collection [] = (collection, Inr ())"
| "insert_ordered new_id collection (d # ds) =
     (let i = (case map_of d ''_id'' of None \<Rightarrow> new_id (length collection) | Some v \<Rightarrow> v)
      in if list_ex (\<lambda>s. map_of s ''_id'' = Some i) collection
         then (collection, Inl BulkWriteError)
         else insert_ordered new_id
                (collection @ [(''_id'', i) # filter (\<lambda>p. fst p \<noteq> ''_id'') d]) ds)"

definition insert_many :: "(nat \<Rightarrow> val) \<Rightarrow> document list \<Rightarrow> document list \<Rightarrow> document list \<times> (error + unit)" where
  "insert_many new_id collection documents =
     (if documents = [] then (collection, Inl (TypeError ''documents must be a non-empty list''))
      else insert_ordered new_id collection documents)"

text \<open>\<open>collection.delete_many({})\<close>: the empty filter matches every document.\<close>

definition delete_many_all :: "document list \<Rightarrow> document list" where
  "delete_many_all collection = []"

definition save_data :: "(nat \<Rightarrow> val) \<Rightarrow> document list \<Rightarrow> dataframe \<Rightarrow> document list \<times> (error + unit)" where
  "save_data new_id collection data =
     (let collection' = delete_many_all collection
      in insert_many new_id collection' (to_dict_records data))"

section \<open>The handlers of \<open>main\<close>\<close>

text \<open>
  Each button of the sidebar is a function of the session's current frame and the values
  of its input fields. It returns what is shown (a success message, an error message of
  \<open>st.error\<close>, or the exception that leaves \<open>main\<close>) and the frame that
  \<open>st.session_state.data\<close> refers to afterwards.
\<close>

datatype report = Success string | Failure string | Raised error

definition quoted :: "string \<Rightarrow> string" where
  "quoted s = [CHR 0x27] @ s @ [CHR 0x27]"

fun join_comma :: "string list \<Rightarrow> string" where
  "join_comma [] = []"
| "join_comma [x] = x"
| "join_comma (x # y # xs) = x @ '', '' @ join_comma (y # xs)"

definition commit :: "string \<Rightarrow> dataframe outcome \<Rightarrow> report \<times> dataframe" where
  "commit msg r = (case r of (obj, Inl e) \<Rightarrow> (Raised e, obj) | (obj, Inr data) \<Rightarrow> (Success msg, data))"

definition add_column_button :: "dataframe \<Rightarrow> string \<Rightarrow> string \<Rightarrow> report \<times> dataframe" where
  "add_column_button data new_col default_val =
     (if new_col \<noteq> []
      then commit (''Column '' @ quoted new_col @ '' added with default value '' @ quoted default_val)
             (add_column data new_col default_val)
      else (Failure ''Column name cannot be empty'', data))"

definition merge_columns_button ::
  "dataframe \<Rightarrow> string \<Rightarrow> string \<Rightarrow> string \<Rightarrow> bool \<Rightarrow> report \<times> dataframe" where
  "merge_columns_button data col1 col2 merged_col_name drop_originals =
     (if col1 \<noteq> [] \<and> col2 \<noteq> [] \<and> merged_col_name \<noteq> []
      then commit (''Columns '' @ quoted col1 @ '' and '' @ quoted col2 @ '' merged into '' @
                    quoted merged_col_name)
             (merge_columns data col1 col2 merged_col_name drop_originals)
      else (Failure ''Please provide all details for merging columns'', data))"

definition remove_columns_button :: "dataframe \<Rightarrow> string list \<Rightarrow> report \<times> dataframe" where
  "remove_columns_button data cols_to_remove =
     (if cols_to_remove \<noteq> []
      then commit (''Columns '' @ join_comma cols_to_remove @ '' removed'')
             (remove_columns data cols_to_remove)
      else (Failure ''Please select columns to remove'', data))"

definition rename_column_button :: "dataframe \<Rightarrow> string \<Rightarrow> string \<Rightarrow> report \<times> dataframe" where
  "rename_column_button data old_col_name new_col_name =
     (if old_col_name \<noteq> [] \<and> new_col_name \<noteq> []
      then commit (''Column '' @ quoted old_col_name @ '' renamed to '' @ quoted new_col_name)
             (rename_column data old_col_name new_col_name)
      else (Failure ''Please provide both the old and new column names'', data))"

definition update_button ::
  "(string \<Rightarrow> datetime option) \<Rightarrow> dataframe \<Rightarrow> string \<Rightarrow> string \<Rightarrow> string \<Rightarrow> report \<times> dataframe" where
  "update_button parse data col_to_update condition_val new_val =
     (if col_to_update \<noteq> [] \<and> condition_val \<noteq> [] \<and> new_val \<noteq> []
      then commit (''Column '' @ quoted col_to_update @ '' updated where value was '' @
                    quoted condition_val)
             (conditional_update parse data col_to_update (VStr condition_val) (VStr new_val))
      else (Failure ''Please provide all details for the update'', data))"

text \<open>The query runs inside \<open>try\<close>; \<open>except Exception\<close> reports the exception's message.\<close>

definition execute_sql_button :: "engine \<Rightarrow> dataframe \<Rightarrow> string \<Rightarrow> report \<times> dataframe" where
  "execute_sql_button sqldf data query =
     (if query \<noteq> []
      then (case execute_sql_query sqldf data query of
              (obj, Inr query_result) \<Rightarrow> (Success ''SQL query executed successfully'', query_result)
            | (obj, Inl e) \<Rightarrow> (Failure (''Error executing SQL query: '' @ e), obj))
      else (Failure ''Please enter a SQL query'', data))"

section \<open>Notions used to state the properties\<close>

text \<open>The labels of the frame an operation returns are pairwise different (nothing is said of a call that raises).\<close>

definition unique_after :: "dataframe outcome \<Rightarrow> bool" where
  "unique_after r = (case snd r of Inl e \<Rightarrow> True | Inr d \<Rightarrow> distinct (columns d))"

text \<open>
  The elements of a list in the order in which they are first met: every element once, at
  the place of its first occurrence.
\<close>

fun first_seen :: "'a list \<Rightarrow> 'a list" where
  "first_seen [] = []"
| "first_seen (x # xs) = x # filter (\<lambda>y. y \<noteq> x) (first_seen xs)"

text \<open>The row-wise concatenation of the texts of two columns.\<close>

definition concat_rows :: "val list \<Rightarrow> val list \<Rightarrow> val list" where
  "concat_rows a b = map (\<lambda>(x, y). VStr (x @ y)) (zip (astype_str a) (astype_str b))"


text \<open>
  A decoder for JSON texts, after RFC 8259. White space is the space, the tab, the line
  feed and the carriage return. A string is closed by the double quote; the backslash
  starts one of the escapes \<open>\" \\ \/ \b \f \n \r \t\<close> or \<open>\uhhhh\<close>, of which the decoder
  takes the code points below 256 (the characters of the model), and a control character
  must be escaped. A number is an optional minus sign, an integer part without a leading
  zero, and then a fraction, an exponent or both; without them it is read as an integer,
  with one of them it is a float, kept as its text. The other values are the three
  literals, the arrays and the objects; an object is read as the list of its members.
\<close>

definition whitespace :: "char \<Rightarrow> bool" where
  "whitespace c \<longleftrightarrow> c = CHR 0x20 \<or> c = CHR 0x09 \<or> c = CHR 0x0A \<or> c = CHR 0x0D"

definition skip_ws :: "string \<Rightarrow> string" where
  "skip_ws s = dropWhile whitespace s"

definition is_digit :: "char \<Rightarrow> bool" where
  "is_digit c \<longleftrightarrow> 48 \<le> (of_char c :: nat) \<and> (of_char c :: nat) \<le> 57"

definition digits_val :: "string \<Rightarrow> nat" where
  "digits_val ds = fold (\<lambda>c n. 10 * n + ((of_char c :: nat) - 48)) ds 0"

definition hex_val :: "char \<Rightarrow> nat option" where
  "hex_val c =
     (let n = (of_char c :: nat)
      in if 48 \<le> n \<and> n \<le> 57 then Some (n - 48)
         else if 97 \<le> n \<and> n \<le> 102 then Some (n - 87)
         else if 65 \<le> n \<and> n \<le> 70 then Some (n - 55)
         else None)"

definition simple_escape :: "char \<Rightarrow> char option" where
  "simple_escape e =
     map_of [(CHR 0x22, CHR 0x22), (CHR 0x5C, CHR 0x5C), (CHR ''/'', CHR ''/''),
             (CHR ''b'', CHR 0x08), (CHR ''f'', CHR 0x0C), (CHR ''n'', CHR 0x0A),
             (CHR ''r'', CHR 0x0D), (CHR ''t'', CHR 0x09)] e"

text \<open>The character an escape stands for, and the number of characters the escape takes behind the backslash.\<close>

definition escape_sequence :: "string \<Rightarrow> (char \<times> nat) option" where
  "escape_sequence cs =
     (case cs of
        [] \<Rightarrow> None
      | e # r \<Rightarrow>
          if e = CHR ''u'' then
            (case map hex_val (take 4 r) of
               [Some a, Some b, Some c, Some d] \<Rightarrow>
                 (let n = ((a * 16 + b) * 16 + c) * 16 + d
                  in if n < 256 then Some (char_of n, 5) else None)
             | _ \<Rightarrow> None)
          else map_option (\<lambda>ch. (ch, 1)) (simple_escape e))"

text \<open>The characters of a string up to its closing quote, and the text behind the quote.\<close>

fun scan_string :: "string \<Rightarrow> (string \<times> string) option" where
  "scan_string [] = None"
| "scan_string (c # cs) =
     (if c = CHR 0x22 then Some ([], cs)
      else if c = CHR 0x5C then
        (case escape_sequence cs of
           None \<Rightarrow> None
         | Some (ch, k) \<Rightarrow> map_option (\<lambda>(s, r). (ch # s, r)) (scan_string (drop k cs)))
      else if (of_char c :: nat) < 32 then None
      else map_option (\<lambda>(s, r). (c # s, r)) (scan_string cs))"

definition digits1 :: "string \<Rightarrow> bool" where
  "digits1 s \<longleftrightarrow> s \<noteq> [] \<and> list_all is_digit s"

definition exponent :: "string \<Rightarrow> bool" where
  "exponent s =
     (case s of
        [] \<Rightarrow> False
      | e # r \<Rightarrow> (e = CHR ''e'' \<or> e = CHR ''E'')
                 \<and> digits1 (case r of [] \<Rightarrow> [] | c # r' \<Rightarrow> if c = CHR ''+'' \<or> c = CHR ''-'' then r' else r))"

definition fraction_exponent :: "string \<Rightarrow> bool" where
  "fraction_exponent s =
     (case s of
        [] \<Rightarrow> False
      | c # r \<Rightarrow>
          if c = CHR ''.''
          then digits1 (takeWhile is_digit r) \<and> (dropWhile is_digit r = [] \<or> exponent (dropWhile is_digit r))
          else exponent s)"

definition number_token :: "string \<Rightarrow> val option" where
  "number_token s =
     (let negative = (take 1 s = ''-'');
          u = (if negative then tl s else s);
          ip = takeWhile is_digit u;
          r = dropWhile is_digit u
      in if ip = [] \<or> (hd ip = CHR ''0'' \<and> length ip \<noteq> 1) then None
         else if r = [] then Some (VInt (if negative then - int (digits_val ip) else int (digits_val ip)))
         else if fraction_exponent r then Some (VFloat s)
         else None)"

definition number_char :: "char \<Rightarrow> bool" where
  "number_char c \<longleftrightarrow> is_digit c \<or> c = CHR ''-'' \<or> c = CHR ''+'' \<or> c = CHR ''.'' \<or> c = CHR ''e'' \<or> c = CHR ''E''"

text \<open>
  The value at the head of a text, and the text behind it. The first argument bounds
  the number of values read, so that the functions are total; every value read takes at
  least one character of the text.
\<close>

fun parse_value :: "nat \<Rightarrow> string \<Rightarrow> (val \<times> string) option"
  and parse_elements :: "nat \<Rightarrow> string \<Rightarrow> (val list \<times> string) option"
  and parse_members :: "nat \<Rightarrow> string \<Rightarrow> ((string \<times> val) list \<times> string) option" where
  "parse_value 0 s = None"
| "parse_value (Suc n) s =
     (case skip_ws s of
        [] \<Rightarrow> None
      | c # cs \<Rightarrow>
          if c = CHR ''['' then
            (case skip_ws cs of
               [] \<Rightarrow> None
             | d # ds \<Rightarrow>
                 if d = CHR '']'' then Some (VList [], ds)
                 else map_option (\<lambda>(xs, r). (VList xs, r)) (parse_elements n cs))
          else if c = CHR ''{'' then
            (case skip_ws cs of
               [] \<Rightarrow> None
             | d # ds \<Rightarrow>
                 if d = CHR ''}'' then Some (VDict [], ds)
                 else map_option (\<lambda>(kvs, r). (VDict kvs, r)) (parse_members n cs))
          else if c = CHR 0x22 then map_option (\<lambda>(t, r). (VStr t, r)) (scan_string cs)
          else if take 4 (c # cs) = ''true'' then Some (VBool True, drop 4 (c # cs))
          else if take 5 (c # cs) = ''false'' then Some (VBool False, drop 5 (c # cs))
          else if take 4 (c # cs) = ''null'' then Some (VNone, drop 4 (c # cs))
          else map_option (\<lambda>v. (v, dropWhile number_char (c # cs)))
                 (number_token (takeWhile number_char (c # cs))))"
| "parse_elements 0 s = None"
| "parse_elements (Suc n) s =
     (case parse_value n s of
        None \<Rightarrow> None
      | Some (v, r) \<Rightarrow>
          (case skip_ws r of
             [] \<Rightarrow> None
           | c # r' \<Rightarrow>
               if c = CHR '','' then map_option (\<lambda>(vs, r''). (v # vs, r'')) (parse_elements n r')
               else if c = CHR '']'' then Some ([v], r')
               else None))"
| "parse_members 0 s = None"
| "parse_members (Suc n) s =
     (case skip_ws s of
        [] \<Rightarrow> None
      | q # s1 \<Rightarrow>
          if q \<noteq> CHR 0x22 then None
          else
            (case scan_string s1 of
               None \<Rightarrow> None
             | Some (k, s2) \<Rightarrow>
                 (case skip_ws s2 of
                    [] \<Rightarrow> None
                  | c # s3 \<Rightarrow>
                      if c \<noteq> CHR '':'' then None
                      else
                        (case parse_value n s3 of
                           None \<Rightarrow> None
                         | Some (v, s4) \<Rightarrow>
                             (case skip_ws s4 of
                                [] \<Rightarrow> None
                              | d # s5 \<Rightarrow>
                                  if d = CHR '','' then
                                    map_option (\<lambda>(kvs, r). ((k, v) # kvs, r)) (parse_members n s5)
                                  else if d = CHR ''}'' then Some ([(k, v)], s5)
                                  else None)))))"

text \<open>A text is a JSON text when it is one value, with nothing but white space around it.\<close>

definition json_loads :: "string \<Rightarrow> val option" where
  "json_loads s =
     (case parse_value (Suc (length s)) s of
        None \<Rightarrow> None
      | Some (v, r) \<Rightarrow> if skip_ws r = [] then Some v else None)"

text \<open>
  The structure a value stands for once the objects JSON has no form for are replaced
  by their \<open>str\<close>, at every depth.
\<close>

fun stringified :: "val \<Rightarrow> val"
  and stringified_list :: "val list \<Rightarrow> val list"
  and stringified_items :: "(string \<times> val) list \<Rightarrow> (string \<times> val) list" where
  "stringified (VList xs) = VList (stringified_list xs)"
| "stringified (VDict kvs) = VDict (stringified_items kvs)"
| "stringified (VTime t) = VStr (py_str (VTime t))"
| "stringified (VTimestamp t) = VStr (py_str (VTimestamp t))"
| "stringified VNaT = VStr (py_str VNaT)"
| "stringified (VOther s r) = VStr (py_str (VOther s r))"
| "stringified v = v"
| "stringified_list [] = []"
| "stringified_list (x # xs) = stringified x # stringified_list xs"
| "stringified_items [] = []"
| "stringified_items ((k, v) # kvs) = (k, stringified v) # stringified_items kvs"

text \<open>
  The text of a float is made of the characters of a number and is a JSON number with a
  fraction or an exponent, as \<open>repr\<close> of a finite float is (\<open>1.0\<close>, \<open>-2.5e-07\<close>, \<open>1e+16\<close>).
\<close>

definition float_literal :: "string \<Rightarrow> bool" where
  "float_literal r \<longleftrightarrow> list_all number_char r \<and> number_token r = Some (VFloat r)"

text \<open>No \<open>nan\<close> at any depth of the value, and every float in it has the text of a finite float.\<close>

fun finite_numbers :: "val \<Rightarrow> bool"
  and finite_numbers_list :: "val list \<Rightarrow> bool"
  and finite_numbers_items :: "(string \<times> val) list \<Rightarrow> bool" where
  "finite_numbers VNaN = False"
| "finite_numbers (VFloat r) = float_literal r"
| "finite_numbers (VList xs) = finite_numbers_list xs"
| "finite_numbers (VDict kvs) = finite_numbers_items kvs"
| "finite_numbers v = True"
| "finite_numbers_list [] = True"
| "finite_numbers_list (x # xs) = (finite_numbers x \<and> finite_numbers_list xs)"
| "finite_numbers_items [] = True"
| "finite_numbers_items ((k, v) # kvs) = (finite_numbers v \<and> finite_numbers_items kvs)"

text \<open>The two tests of \<open>serialize_complex_data\<close>: \<open>isinstance(value, (list, dict))\<close> and \<open>isinstance(value, datetime)\<close>.\<close>

definition list_or_dict :: "val \<Rightarrow> bool" where
  "list_or_dict v = (case v of VList xs \<Rightarrow> True | VDict kvs \<Rightarrow> True | _ \<Rightarrow> False)"

definition datetime_instance :: "val \<Rightarrow> bool" where
  "datetime_instance v = (case v of VTime t \<Rightarrow> True | VTimestamp t \<Rightarrow> True | VNaT \<Rightarrow> True | _ \<Rightarrow> False)"

section \<open>Lookup, assignment and removal of columns\<close>

lemma filter_label_distinct:
  "distinct (map fst xs) \<Longrightarrow> (k, v) \<in> set xs \<Longrightarrow> filter (\<lambda>p. fst p = k) xs = [(k, v)]"
proof (induction xs)
  case Nil
  then show ?case by simp
next
  case (Cons x xs)
  show ?case
  proof (cases "x = (k, v)")
    case True
    with Cons.prems have "\<forall>p \<in> set xs. fst p \<noteq> k" by force
    then have "filter (\<lambda>p. fst p = k) xs = []" by (simp add: filter_empty_conv)
    with True show ?thesis by simp
  next
    case False
    with Cons.prems have mem: "(k, v) \<in> set xs" by simp
    then have "k \<in> fst ` set xs" by force
    with Cons.prems have "fst x \<noteq> k" by auto
    with Cons mem show ?thesis by simp
  qed
qed

lemma df_getitem_present:
  assumes "distinct (columns df)" and "(c, vs) \<in> set (cols df)"
  shows "df_getitem df c = Inr vs"
  using filter_label_distinct [of "cols df" c vs] assms
  by (simp add: df_getitem_def columns_def)

lemma df_getitem_absent:
  assumes "c \<notin> set (columns df)"
  shows "df_getitem df c = Inl (KeyError [c])"
proof -
  from assms have "\<forall>p \<in> set (cols df). fst p \<noteq> c" by (auto simp: columns_def)
  then have "filter (\<lambda>p. fst p = c) (cols df) = []" by (simp add: filter_empty_conv)
  then show ?thesis by (simp add: df_getitem_def)
qed


lemma columns_mem_iff: "c \<in> set (columns df) \<longleftrightarrow> (\<exists>vs. (c, vs) \<in> set (cols df))"
  by (force simp: columns_def)

lemma df_getitem_total:
  assumes "distinct (columns df)" and "c \<in> set (columns df)"
  shows "\<exists>vs. df_getitem df c = Inr vs"
  using assms df_getitem_present columns_mem_iff by blast

text \<open>Assignment to a label keeps the labels distinct, and the rows complete.\<close>

lemma columns_df_setitem:
  "columns (df_setitem df c vs) = (if c \<in> set (columns df) then columns df else columns df @ [c])"
proof -
  have "map fst (map (\<lambda>p. if fst p = c then (c, vs) else p) xs) = map fst xs" for xs :: "(string \<times> val list) list"
    by (induction xs) auto
  then show ?thesis by (simp add: df_setitem_def columns_def)
qed

lemma distinct_df_setitem:
  "distinct (columns df) \<Longrightarrow> distinct (columns (df_setitem df c vs))"
  by (simp add: columns_df_setitem)

lemma nrows_df_setitem [simp]: "nrows (df_setitem df c vs) = nrows df"
  by (simp add: df_setitem_def)

lemma df_getitem_setitem_same:
  assumes "distinct (columns df)"
  shows "df_getitem (df_setitem df c vs) c = Inr vs"
proof -
  have "(c, vs) \<in> set (cols (df_setitem df c vs))"
    using columns_mem_iff [of c df] by (force simp: df_setitem_def)
  with distinct_df_setitem [OF assms] show ?thesis by (rule df_getitem_present)
qed

lemma filter_label_map_other:
  "c' \<noteq> c \<Longrightarrow> filter (\<lambda>p. fst p = c') (map (\<lambda>p. if fst p = c then (c, vs) else p) xs)
     = filter (\<lambda>p. fst p = c') xs"
  by (induction xs) auto

lemma df_getitem_setitem_other:
  assumes "c' \<noteq> c"
  shows "df_getitem (df_setitem df c vs) c' = df_getitem df c'"
  using assms by (simp add: df_getitem_def df_setitem_def filter_label_map_other)

lemma columns_df_drop:
  "df_drop df ls = Inr d \<Longrightarrow> columns d = filter (\<lambda>c. c \<notin> set ls) (columns df) \<and> nrows d = nrows df"
  by (auto simp: df_drop_def columns_def Let_def filter_map comp_def split: if_splits)

lemma df_drop_ok:
  "set ls \<subseteq> set (columns df) \<Longrightarrow>
     df_drop df ls = Inr (df\<lparr>cols := filter (\<lambda>p. fst p \<notin> set ls) (cols df)\<rparr>)"
proof -
  assume "set ls \<subseteq> set (columns df)"
  then have "filter (\<lambda>l. l \<notin> set (columns df)) ls = []" by (auto simp: filter_empty_conv)
  then show ?thesis by (simp add: df_drop_def)
qed

lemma df_drop_missing:
  "\<not> set ls \<subseteq> set (columns df) \<Longrightarrow>
     df_drop df ls = Inl (KeyError (filter (\<lambda>l. l \<notin> set (columns df)) ls))"
proof -
  assume "\<not> set ls \<subseteq> set (columns df)"
  then have "filter (\<lambda>l. l \<notin> set (columns df)) ls \<noteq> []" by (auto simp: filter_empty_conv)
  then show ?thesis by (simp add: df_drop_def)
qed

lemma df_getitem_drop_other:
  assumes "df_drop df ls = Inr d" and "c \<notin> set ls"
  shows "df_getitem d c = df_getitem df c"
proof -
  have "filter (\<lambda>p. fst p = c) (filter (\<lambda>p. fst p \<notin> set ls) xs) = filter (\<lambda>p. fst p = c) xs"
    for xs :: "(string \<times> val list) list"
    using assms(2) by (induction xs) auto
  with assms(1) show ?thesis
    by (auto simp: df_drop_def df_getitem_def Let_def split: if_splits)
qed


lemma length_astype_str [simp]: "length (astype_str vs) = length vs"
  by (simp add: astype_str_def)

lemma astype_str_untyped: "\<not> datetime64 vs \<Longrightarrow> astype_str vs = map py_str vs"
  by (simp add: astype_str_def)




lemma conditional_update_cases:
  "(\<exists>e. conditional_update parse data column condition new_value = (data, Inl e))
   \<or> (\<exists>vs'. conditional_update parse data column condition new_value
              = (df_setitem data column vs', Inr (df_setitem data column vs')))"
  by (auto simp: conditional_update_def Let_def split: sum.splits)


section \<open>Removing columns\<close>

text \<open>
  Claim C4 says that \<open>RemoveColumns\<close> passes over a name that is not a column. The call
  is \<open>data.drop(columns=columns)\<close>, which raises: removing \<open>b\<close> from a table whose only
  column is \<open>a\<close> ends with \<open>KeyError\<close>, and nothing is removed.
\<close>

theorem remove_columns_raises_on_absent_name:
  "remove_columns \<lparr>nrows = 1, cols = [(''a'', [VInt 1])]\<rparr> [''b'']
     = (\<lparr>nrows = 1, cols = [(''a'', [VInt 1])]\<rparr>, Inl (KeyError [''b'']))"
  by (simp add: remove_columns_def df_drop_def columns_def)

text \<open>
  C4, as the code has it: when every name of the list is a column, \<open>remove_columns\<close>
  returns a new frame whose columns are the others, in their order and with their values,
  over the same rows; when some name is not a column it raises \<open>KeyError\<close> with the
  names that are missing, and removes nothing. The frame passed in is unchanged either way.
\<close>

theorem remove_columns_spec:
  "(set names \<subseteq> set (columns data) \<longrightarrow>
      (\<exists>d. remove_columns data names = (data, Inr d)
         \<and> columns d = filter (\<lambda>c. c \<notin> set names) (columns data)
         \<and> nrows d = nrows data
         \<and> (\<forall>c. c \<notin> set names \<longrightarrow> df_getitem d c = df_getitem data c)))
   \<and> (\<not> set names \<subseteq> set (columns data) \<longrightarrow>
      (\<exists>missing. remove_columns data names = (data, Inl (KeyError missing))
         \<and> set missing = set names - set (columns data)))"
proof (intro conjI impI)
  assume sub: "set names \<subseteq> set (columns data)"
  let ?d = "data\<lparr>cols := filter (\<lambda>p. fst p \<notin> set names) (cols data)\<rparr>"
  have d: "df_drop data names = Inr ?d" using sub by (rule df_drop_ok)
  have "remove_columns data names = (data, Inr ?d)" by (simp add: remove_columns_def d)
  moreover have "columns ?d = filter (\<lambda>c. c \<notin> set names) (columns data) \<and> nrows ?d = nrows data"
    using d by (rule columns_df_drop)
  moreover have "\<forall>c. c \<notin> set names \<longrightarrow> df_getitem ?d c = df_getitem data c"
    using d by (simp add: df_getitem_drop_other)
  ultimately show "\<exists>d. remove_columns data names = (data, Inr d)
         \<and> columns d = filter (\<lambda>c. c \<notin> set names) (columns data)
         \<and> nrows d = nrows data
         \<and> (\<forall>c. c \<notin> set names \<longrightarrow> df_getitem d c = df_getitem data c)"
    by blast
next
  assume "\<not> set names \<subseteq> set (columns data)"
  then have "df_drop data names = Inl (KeyError (filter (\<lambda>l. l \<notin> set (columns data)) names))"
    by (rule df_drop_missing)
  then have "remove_columns data names = (data, Inl (KeyError (filter (\<lambda>l. l \<notin> set (columns data)) names)))"
    by (simp add: remove_columns_def)
  moreover have "set (filter (\<lambda>l. l \<notin> set (columns data)) names) = set names - set (columns data)"
    by auto
  ultimately show "\<exists>missing. remove_columns data names = (data, Inl (KeyError missing))
         \<and> set missing = set names - set (columns data)"
    by blast
qed

theorem remove_columns_spec_witness:
  "set [''a''] \<subseteq> set (columns \<lparr>nrows = 1, cols = [(''a'', [VInt 1]), (''b'', [VInt 2])]\<rparr>)
   \<and> remove_columns \<lparr>nrows = 1, cols = [(''a'', [VInt 1]), (''b'', [VInt 2])]\<rparr> [''a'']
         = (\<lparr>nrows = 1, cols = [(''a'', [VInt 1]), (''b'', [VInt 2])]\<rparr>,
            Inr \<lparr>nrows = 1, cols = [(''b'', [VInt 2])]\<rparr>)
   \<and> \<not> set [''z''] \<subseteq> set (columns \<lparr>nrows = 1, cols = [(''a'', [VInt 1]), (''b'', [VInt 2])]\<rparr>)
   \<and> remove_columns \<lparr>nrows = 1, cols = [(''a'', [VInt 1]), (''b'', [VInt 2])]\<rparr> [''z'']
         = (\<lparr>nrows = 1, cols = [(''a'', [VInt 1]), (''b'', [VInt 2])]\<rparr>, Inl (KeyError [''z'']))"
proof -
  let ?T = "\<lparr>nrows = 1, cols = [(''a'', [VInt 1]), (''b'', [VInt 2])]\<rparr>"
  have a: "set [''a''] \<subseteq> set (columns ?T)" by (simp add: columns_def)
  have z: "\<not> set [''z''] \<subseteq> set (columns ?T)" by (simp add: columns_def)
  from a remove_columns_spec [of "[''a'']" ?T]
  have "\<exists>d. remove_columns ?T [''a''] = (?T, Inr d)" by blast
  moreover from z remove_columns_spec [of "[''z'']" ?T]
  have "\<exists>m. remove_columns ?T [''z''] = (?T, Inl (KeyError m))" by blast
  ultimately show ?thesis
    by (simp add: remove_columns_def df_drop_def columns_def)
qed


section \<open>Renaming there and back\<close>

text \<open>
  C9: when \<open>new\<close> is not the name of another column, \<open>rename_column(old, new)\<close> followed
  by \<open>rename_column(new, old)\<close> gives back the frame it started from: the same labels in
  the same order over the same values.
\<close>

theorem rename_round_trip:
  assumes "new \<notin> set (columns data) \<or> new = old"
  shows "\<exists>d1. rename_column data old new = (data, Inr d1)
           \<and> rename_column d1 new old = (d1, Inr data)"
proof -
  let ?f = "\<lambda>p::string \<times> val list. if fst p = old then (new, snd p) else p"
  let ?g = "\<lambda>p::string \<times> val list. if fst p = new then (old, snd p) else p"
  have "map ?g (map ?f (cols data)) = cols data"
  proof -
    have "\<forall>p \<in> set (cols data). ?g (?f p) = p"
    proof
      fix p assume "p \<in> set (cols data)"
      then have "fst p \<in> set (columns data)" by (simp add: columns_def)
      with assms show "?g (?f p) = p" by (cases p) auto
    qed
    then have "map (?g \<circ> ?f) (cols data) = cols data" by (simp add: map_idI)
    then show ?thesis by simp
  qed
  then have "df_rename (df_rename data old new) new old = data"
    by (simp add: df_rename_def)
  then show ?thesis by (simp add: rename_column_def)
qed

theorem rename_round_trip_witness:
  "''n'' \<notin> set (columns \<lparr>nrows = 1, cols = [(''a'', [VInt 1]), (''b'', [VInt 2])]\<rparr>)
   \<and> rename_column \<lparr>nrows = 1, cols = [(''a'', [VInt 1]), (''b'', [VInt 2])]\<rparr> ''a'' ''n''
       = (\<lparr>nrows = 1, cols = [(''a'', [VInt 1]), (''b'', [VInt 2])]\<rparr>,
          Inr \<lparr>nrows = 1, cols = [(''n'', [VInt 1]), (''b'', [VInt 2])]\<rparr>)
   \<and> rename_column \<lparr>nrows = 1, cols = [(''n'', [VInt 1]), (''b'', [VInt 2])]\<rparr> ''n'' ''a''
       = (\<lparr>nrows = 1, cols = [(''n'', [VInt 1]), (''b'', [VInt 2])]\<rparr>,
          Inr \<lparr>nrows = 1, cols = [(''a'', [VInt 1]), (''b'', [VInt 2])]\<rparr>)"
  using rename_round_trip [of "''n''" "\<lparr>nrows = 1, cols = [(''a'', [VInt 1]), (''b'', [VInt 2])]\<rparr>" "''a''"]
  by (simp add: columns_def rename_column_def df_rename_def)


section \<open>Conditional update\<close>





section \<open>Uniqueness of column names\<close>

lemma columns_df_rename:
  "columns (df_rename df old new) = map (\<lambda>c. if c = old then new else c) (columns df)"
  by (simp add: df_rename_def columns_def comp_def if_distrib [of fst] cong: if_cong)

lemma distinct_df_drop:
  "distinct (columns df) \<Longrightarrow> df_drop df ls = Inr d \<Longrightarrow> distinct (columns d)"
  using columns_df_drop [of df ls d] by simp

text \<open>
  Claim C2 says that no two columns share a name after any operation, and that renaming a
  column to the name of another one overwrites that other column. \<open>rename_column\<close> is
  \<open>data.rename(columns={old: new})\<close>, which relabels and removes nothing: renaming \<open>a\<close>
  to \<open>b\<close> in a table with the columns \<open>a\<close> and \<open>b\<close> gives a frame with two columns
  labelled \<open>b\<close>, the renamed one first, each with its own values.
\<close>

theorem rename_onto_existing_column_duplicates_label:
  "rename_column \<lparr>nrows = 1, cols = [(''a'', [VInt 1]), (''b'', [VInt 2])]\<rparr> ''a'' ''b''
     = (\<lparr>nrows = 1, cols = [(''a'', [VInt 1]), (''b'', [VInt 2])]\<rparr>,
        Inr \<lparr>nrows = 1, cols = [(''b'', [VInt 1]), (''b'', [VInt 2])]\<rparr>)
   \<and> columns \<lparr>nrows = 1, cols = [(''b'', [VInt 1]), (''b'', [VInt 2])]\<rparr> = [''b'', ''b'']"
  by (simp add: rename_column_def df_rename_def columns_def)

text \<open>
  C2, as the code has it: on a table (labels pairwise different) \<open>add_column\<close>,
  \<open>merge_columns\<close>, \<open>remove_columns\<close> and \<open>conditional_update\<close> return a frame whose
  labels are pairwise different, and so does \<open>rename_column\<close> when the old name is not a
  column, or the new name is not a column, or both names are the same. When the old and
  the new name are two different columns of the table, the frame returned has the new name
  exactly twice.
\<close>

theorem column_names_stay_unique:
  assumes "distinct (columns data)"
  shows "unique_after (add_column data name default_value)
       \<and> unique_after (merge_columns data col1 col2 new_name drop_originals)
       \<and> unique_after (remove_columns data names)
       \<and> unique_after (conditional_update parse data column condition new_value)
       \<and> (old \<notin> set (columns data) \<or> new \<notin> set (columns data) \<or> new = old
            \<longrightarrow> unique_after (rename_column data old new))
       \<and> (old \<in> set (columns data) \<and> new \<in> set (columns data) \<and> new \<noteq> old
            \<longrightarrow> \<not> unique_after (rename_column data old new))
       \<and> (old \<in> set (columns data) \<and> new \<in> set (columns data) \<and> new \<noteq> old
            \<longrightarrow> count_list (columns (df_rename data old new)) new = 2
                \<and> rename_column data old new = (data, Inr (df_rename data old new)))"
proof (intro conjI impI)
  show "unique_after (add_column data name default_value)"
    using assms by (simp add: unique_after_def add_column_def Let_def distinct_df_setitem)
  show "unique_after (merge_columns data col1 col2 new_name drop_originals)"
  proof -
    have "distinct (columns d)"
      if "df_drop (df_setitem data new_name vs) [col1, col2] = Inr d" for vs d
      using distinct_df_drop [OF distinct_df_setitem [OF assms] that] .
    with assms show ?thesis
      by (auto simp: unique_after_def merge_columns_def Let_def distinct_df_setitem
               split: sum.splits)
  qed
  show "unique_after (remove_columns data names)"
    using assms by (auto simp: unique_after_def remove_columns_def split: sum.splits intro: distinct_df_drop)
  show "unique_after (conditional_update parse data column condition new_value)"
    using assms conditional_update_cases [of parse data column condition new_value]
    by (auto simp: unique_after_def distinct_df_setitem)
next
  assume h: "old \<notin> set (columns data) \<or> new \<notin> set (columns data) \<or> new = old"
  have "inj_on (\<lambda>c. if c = old then new else c) (set (columns data))"
    using h by (auto simp: inj_on_def split: if_splits)
  with assms have "distinct (map (\<lambda>c. if c = old then new else c) (columns data))"
    by (simp add: distinct_map)
  then show "unique_after (rename_column data old new)"
    by (simp add: unique_after_def rename_column_def columns_df_rename)
next
  assume h: "old \<in> set (columns data) \<and> new \<in> set (columns data) \<and> new \<noteq> old"
  have "\<not> inj_on (\<lambda>c. if c = old then new else c) (set (columns data))"
  proof
    assume "inj_on (\<lambda>c. if c = old then new else c) (set (columns data))"
    from inj_onD [OF this, of old new] h show False by auto
  qed
  then have "\<not> distinct (map (\<lambda>c. if c = old then new else c) (columns data))"
    by (simp add: distinct_map)
  then show "\<not> unique_after (rename_column data old new)"
    by (simp add: unique_after_def rename_column_def columns_df_rename)
next
  assume h: "old \<in> set (columns data) \<and> new \<in> set (columns data) \<and> new \<noteq> old"
  have e1: "count_list (columns (df_rename data old new)) new
          = length (filter (\<lambda>c. (if c = old then new else c) = new) (columns data))"
    by (auto simp add: columns_df_rename count_list_eq_length_filter filter_map comp_def
             intro!: arg_cong [where f = length] filter_cong)
  have e2: "length (filter (\<lambda>c. (if c = old then new else c) = new) (columns data))
          = card ({c. (if c = old then new else c) = new} \<inter> set (columns data))"
    using assms by (rule distinct_length_filter)
  have e3: "{c. (if c = old then new else c) = new} \<inter> set (columns data) = {old, new}"
    using h by auto
  have e4: "card {old, new} = (2::nat)"
    using h by auto
  show "count_list (columns (df_rename data old new)) new = 2"
    by (simp only: e1 e2 e3 e4)
next
  show "rename_column data old new = (data, Inr (df_rename data old new))"
    by (simp add: rename_column_def)
qed

theorem column_names_stay_unique_witness:
  "distinct (columns \<lparr>nrows = 1, cols = [(''a'', [VInt 1]), (''b'', [VInt 2])]\<rparr>)
   \<and> ''a'' \<in> set (columns \<lparr>nrows = 1, cols = [(''a'', [VInt 1]), (''b'', [VInt 2])]\<rparr>)
   \<and> ''b'' \<in> set (columns \<lparr>nrows = 1, cols = [(''a'', [VInt 1]), (''b'', [VInt 2])]\<rparr>)
   \<and> ''c'' \<notin> set (columns \<lparr>nrows = 1, cols = [(''a'', [VInt 1]), (''b'', [VInt 2])]\<rparr>)
   \<and> unique_after (rename_column \<lparr>nrows = 1, cols = [(''a'', [VInt 1]), (''b'', [VInt 2])]\<rparr> ''a'' ''c'')
   \<and> \<not> unique_after (rename_column \<lparr>nrows = 1, cols = [(''a'', [VInt 1]), (''b'', [VInt 2])]\<rparr> ''a'' ''b'')
   \<and> count_list (columns (df_rename \<lparr>nrows = 1, cols = [(''a'', [VInt 1]), (''b'', [VInt 2])]\<rparr> ''a'' ''b'')) ''b'' = 2
   \<and> unique_after (merge_columns \<lparr>nrows = 1, cols = [(''a'', [VInt 1]), (''b'', [VInt 2])]\<rparr> ''a'' ''b'' ''b'' False)"
proof -
  let ?T = "\<lparr>nrows = 1, cols = [(''a'', [VInt 1]), (''b'', [VInt 2])]\<rparr>"
  have d: "distinct (columns ?T)" by (simp add: columns_def)
  have ma: "''a'' \<in> set (columns ?T)" and mb: "''b'' \<in> set (columns ?T)"
    and mc: "''c'' \<notin> set (columns ?T)"
    by (simp_all add: columns_def)
  have free: "''a'' \<notin> set (columns ?T) \<or> ''c'' \<notin> set (columns ?T) \<or> ''c'' = ''a''"
    using mc by (intro disjI2 disjI1)
  have ba: "''b'' \<noteq> ''a''" by simp
  have clash: "''a'' \<in> set (columns ?T) \<and> ''b'' \<in> set (columns ?T) \<and> ''b'' \<noteq> ''a''"
    using ma mb ba by (intro conjI)
  note t1 = column_names_stay_unique [OF d, where old = "''a''" and new = "''c''"]
  note t2 = column_names_stay_unique [OF d, where old = "''a''" and new = "''b''"
      and ?col1.0 = "''a''" and ?col2.0 = "''b''" and new_name = "''b''" and drop_originals = False]
  have r1: "unique_after (rename_column ?T ''a'' ''c'')"
    using t1 [THEN conjunct2, THEN conjunct2, THEN conjunct2, THEN conjunct2, THEN conjunct1, THEN mp, OF free] .
  have r2: "\<not> unique_after (rename_column ?T ''a'' ''b'')"
    using t2 [THEN conjunct2, THEN conjunct2, THEN conjunct2, THEN conjunct2, THEN conjunct2,
              THEN conjunct1, THEN mp, OF clash] .
  have r3: "count_list (columns (df_rename ?T ''a'' ''b'')) ''b'' = 2"
    using t2 [THEN conjunct2, THEN conjunct2, THEN conjunct2, THEN conjunct2, THEN conjunct2,
              THEN conjunct2, THEN mp, OF clash, THEN conjunct1] .
  have r4: "unique_after (merge_columns ?T ''a'' ''b'' ''b'' False)"
    using t2 [THEN conjunct2, THEN conjunct1] .
  from d ma mb mc r1 r2 r3 r4 show ?thesis by (intro conjI)
qed


section \<open>Merging two columns\<close>

lemma table_column_length:
  "table df \<Longrightarrow> (c, vs) \<in> set (cols df) \<Longrightarrow> length vs = nrows df"
  by (auto simp: table_def list_all_iff)

text \<open>
  C3 says that with \<open>dropOriginals\<close> a source column whose name is the new name is kept as
  the merged column. The code assigns the merged column and then drops both source labels,
  whatever the new name is. In the table with the columns \<open>a\<close> (\<open>x\<close>, \<open>y\<close>) and \<open>b\<close> (1, 2),
  merging \<open>a\<close> and \<open>b\<close> into \<open>a\<close> with the originals dropped builds the merged column
  (\<open>x1\<close>, \<open>y2\<close>) under the label \<open>a\<close> and then returns a frame without any column: the
  merged column is gone with the originals, and the handler of \<open>main\<close> makes that frame the
  session's while it reports that the columns were merged into \<open>a\<close>.
\<close>

theorem merge_into_original_name_drops_merged_column:
  "merge_columns \<lparr>nrows = 2, cols = [(''a'', [VStr ''x'', VStr ''y'']), (''b'', [VInt 1, VInt 2])]\<rparr>
       ''a'' ''b'' ''a'' True
     = (\<lparr>nrows = 2, cols = [(''a'', [VStr ''x1'', VStr ''y2'']), (''b'', [VInt 1, VInt 2])]\<rparr>,
        Inr \<lparr>nrows = 2, cols = []\<rparr>)
   \<and> merge_columns_button \<lparr>nrows = 2, cols = [(''a'', [VStr ''x'', VStr ''y'']), (''b'', [VInt 1, VInt 2])]\<rparr>
       ''a'' ''b'' ''a'' True
     = (Success (''Columns '' @ quoted ''a'' @ '' and '' @ quoted ''b'' @ '' merged into '' @ quoted ''a''),
        \<lparr>nrows = 2, cols = []\<rparr>)"
  by code_simp

text \<open>
  Apart from that case the function does what C3 says. In a table with the columns
  \<open>col1\<close> (cells \<open>a\<close>) and \<open>col2\<close> (cells \<open>b\<close>) the merged column has one string per row, the
  text of the cell of \<open>col1\<close> followed by the text of the cell of \<open>col2\<close>, the texts being
  those of \<open>astype(str)\<close> (the \<open>str\<close> of each cell unless the column is \<open>datetime64\<close>).
  Without \<open>drop_originals\<close> the frame returned has the merged column under the new name (in
  place when the name exists, as the last column otherwise) and every other column as
  before. With \<open>drop_originals\<close> the columns \<open>col1\<close> and \<open>col2\<close> are removed after the
  assignment; the merged column is there when the new name is neither of them.
\<close>

lemma merge_columns_spec:
  assumes "table data" and "(col1, a) \<in> set (cols data)" and "(col2, b) \<in> set (cols data)"
  shows "length (concat_rows a b) = nrows data
       \<and> (\<forall>i < nrows data. concat_rows a b ! i = VStr (astype_str a ! i @ astype_str b ! i))
       \<and> (\<not> datetime64 a \<longrightarrow> astype_str a = map py_str a)
       \<and> (\<not> datetime64 b \<longrightarrow> astype_str b = map py_str b)
       \<and> (\<exists>d. merge_columns data col1 col2 new_name False = (d, Inr d)
              \<and> df_getitem d new_name = Inr (concat_rows a b)
              \<and> columns d = (if new_name \<in> set (columns data) then columns data
                              else columns data @ [new_name])
              \<and> (\<forall>c. c \<noteq> new_name \<longrightarrow> df_getitem d c = df_getitem data c))
       \<and> (\<exists>d r. merge_columns data col1 col2 new_name True = (d, Inr r)
              \<and> columns r = filter (\<lambda>c. c \<noteq> col1 \<and> c \<noteq> col2) (columns d)
              \<and> (new_name \<noteq> col1 \<and> new_name \<noteq> col2 \<longrightarrow> df_getitem r new_name = Inr (concat_rows a b))
              \<and> (new_name = col1 \<or> new_name = col2 \<longrightarrow> new_name \<notin> set (columns r))
              \<and> (\<forall>c. c \<noteq> new_name \<and> c \<noteq> col1 \<and> c \<noteq> col2 \<longrightarrow> df_getitem r c = df_getitem data c))"
proof -
  from assms(1) have dist: "distinct (columns data)" by (simp add: table_def)
  have la: "length a = nrows data" and lb: "length b = nrows data"
    using assms by (auto dest: table_column_length)
  have ga: "df_getitem data col1 = Inr a" and gb: "df_getitem data col2 = Inr b"
    using dist assms(2,3) by (auto intro: df_getitem_present)
  let ?m = "concat_rows a b"
  let ?d = "df_setitem data new_name ?m"
  have len: "length ?m = nrows data" using la lb by (simp add: concat_rows_def)
  have rows: "\<forall>i < nrows data. ?m ! i = VStr (astype_str a ! i @ astype_str b ! i)"
    using la lb by (simp add: concat_rows_def)
  have sa: "\<not> datetime64 a \<longrightarrow> astype_str a = map py_str a"
    and sb: "\<not> datetime64 b \<longrightarrow> astype_str b = map py_str b"
    by (simp_all add: astype_str_untyped)
  have keep: "merge_columns data col1 col2 new_name False = (?d, Inr ?d)"
    by (simp add: merge_columns_def ga gb Let_def concat_rows_def)
  have gm: "df_getitem ?d new_name = Inr ?m" using dist by (rule df_getitem_setitem_same)
  have cd: "columns ?d = (if new_name \<in> set (columns data) then columns data else columns data @ [new_name])"
    by (rule columns_df_setitem)
  have other: "\<forall>c. c \<noteq> new_name \<longrightarrow> df_getitem ?d c = df_getitem data c"
    by (simp add: df_getitem_setitem_other)
  have in1: "col1 \<in> set (columns ?d)" and in2: "col2 \<in> set (columns ?d)"
    using assms(2,3) columns_mem_iff [of _ data] by (auto simp: cd)
  define r where "r = ?d\<lparr>cols := filter (\<lambda>p. fst p \<notin> set [col1, col2]) (cols ?d)\<rparr>"
  have dr: "df_drop ?d [col1, col2] = Inr r"
    unfolding r_def using in1 in2 by (intro df_drop_ok) simp
  have drop: "merge_columns data col1 col2 new_name True = (?d, Inr r)"
    using dr by (simp add: merge_columns_def ga gb Let_def concat_rows_def [symmetric])
  have cr: "columns r = filter (\<lambda>c. c \<noteq> col1 \<and> c \<noteq> col2) (columns ?d)"
    using columns_df_drop [OF dr] by simp
  have r1: "new_name \<noteq> col1 \<and> new_name \<noteq> col2 \<longrightarrow> df_getitem r new_name = Inr ?m"
    using df_getitem_drop_other [OF dr, of new_name] gm by simp
  have r2: "new_name = col1 \<or> new_name = col2 \<longrightarrow> new_name \<notin> set (columns r)"
    by (auto simp: cr)
  have r3: "\<forall>c. c \<noteq> new_name \<and> c \<noteq> col1 \<and> c \<noteq> col2 \<longrightarrow> df_getitem r c = df_getitem data c"
    using df_getitem_drop_other [OF dr] other by simp
  from len rows sa sb keep gm cd other drop cr r1 r2 r3 show ?thesis by blast
qed


section \<open>Operations whose parameters are wrong\<close>

text \<open>
  Claim C1 says that every operation given an empty name or a missing column fails and
  leaves the table as it was. The functions check nothing themselves: \<open>add_column\<close> with
  the empty name succeeds and adds a column labelled with the empty string, and
  \<open>rename_column\<close> of a name that is not a column succeeds and returns the table unchanged.
\<close>

theorem add_column_accepts_empty_name:
  "add_column \<lparr>nrows = 1, cols = [(''a'', [VInt 1])]\<rparr> [] ''v''
     = (\<lparr>nrows = 1, cols = [(''a'', [VInt 1]), ([], [VStr ''v''])]\<rparr>,
        Inr \<lparr>nrows = 1, cols = [(''a'', [VInt 1]), ([], [VStr ''v''])]\<rparr>)
   \<and> rename_column \<lparr>nrows = 1, cols = [(''a'', [VInt 1])]\<rparr> ''zz'' ''b''
     = (\<lparr>nrows = 1, cols = [(''a'', [VInt 1])]\<rparr>, Inr \<lparr>nrows = 1, cols = [(''a'', [VInt 1])]\<rparr>)"
  by (simp add: add_column_def df_setitem_def columns_def rename_column_def df_rename_def Let_def)

text \<open>
  C1, as the code has it, on a table: \<open>remove_columns\<close>, \<open>merge_columns\<close> and
  \<open>conditional_update\<close> given a column that the table lacks raise \<open>KeyError\<close> before
  anything is assigned, so the frame passed in, which is the session's, is as it was, and
  the handler in \<open>main\<close> lets the exception through without replacing it.
  \<open>rename_column\<close> of a missing column raises nothing and returns the table unchanged.
  An empty name is refused by the handlers of \<open>main\<close> only: they report an error and
  leave the session's frame as it is.
\<close>

theorem failed_operation_leaves_table:
  assumes "distinct (columns data)"
  shows "(\<not> set names \<subseteq> set (columns data) \<longrightarrow>
           (\<exists>missing. remove_columns data names = (data, Inl (KeyError missing))
              \<and> remove_columns_button data names = (Raised (KeyError missing), data)))
       \<and> (col1 \<notin> set (columns data) \<or> col2 \<notin> set (columns data) \<longrightarrow>
           (\<exists>c. merge_columns data col1 col2 new_name drop_originals = (data, Inl (KeyError [c]))
              \<and> (col1 \<noteq> [] \<and> col2 \<noteq> [] \<and> new_name \<noteq> [] \<longrightarrow>
                   merge_columns_button data col1 col2 new_name drop_originals
                     = (Raised (KeyError [c]), data))))
       \<and> (column \<notin> set (columns data) \<longrightarrow>
           conditional_update parse data column match_value new_val = (data, Inl (KeyError [column]))
           \<and> (column \<noteq> [] \<and> condition \<noteq> [] \<and> new_value \<noteq> [] \<longrightarrow>
                update_button parse data column condition new_value = (Raised (KeyError [column]), data)))
       \<and> (old \<notin> set (columns data) \<longrightarrow> rename_column data old new = (data, Inr data))
       \<and> add_column_button data [] default_value = (Failure ''Column name cannot be empty'', data)
       \<and> merge_columns_button data col1 col2 [] drop_originals
            = (Failure ''Please provide all details for merging columns'', data)
       \<and> rename_column_button data old []
            = (Failure ''Please provide both the old and new column names'', data)"
proof -
  have rem: "\<not> set names \<subseteq> set (columns data) \<longrightarrow>
           (\<exists>missing. remove_columns data names = (data, Inl (KeyError missing))
              \<and> remove_columns_button data names = (Raised (KeyError missing), data))"
  proof
    assume m: "\<not> set names \<subseteq> set (columns data)"
    then have ne: "names \<noteq> []" by auto
    from m have "df_drop data names = Inl (KeyError (filter (\<lambda>l. l \<notin> set (columns data)) names))"
      by (rule df_drop_missing)
    then show "\<exists>missing. remove_columns data names = (data, Inl (KeyError missing))
              \<and> remove_columns_button data names = (Raised (KeyError missing), data)"
      using ne by (simp add: remove_columns_def remove_columns_button_def commit_def)
  qed
  have mer: "col1 \<notin> set (columns data) \<or> col2 \<notin> set (columns data) \<longrightarrow>
           (\<exists>c. merge_columns data col1 col2 new_name drop_originals = (data, Inl (KeyError [c]))
              \<and> (col1 \<noteq> [] \<and> col2 \<noteq> [] \<and> new_name \<noteq> [] \<longrightarrow>
                   merge_columns_button data col1 col2 new_name drop_originals
                     = (Raised (KeyError [c]), data)))"
  proof
    assume m: "col1 \<notin> set (columns data) \<or> col2 \<notin> set (columns data)"
    show "\<exists>c. merge_columns data col1 col2 new_name drop_originals = (data, Inl (KeyError [c]))
              \<and> (col1 \<noteq> [] \<and> col2 \<noteq> [] \<and> new_name \<noteq> [] \<longrightarrow>
                   merge_columns_button data col1 col2 new_name drop_originals
                     = (Raised (KeyError [c]), data))"
    proof (cases "col1 \<in> set (columns data)")
      case False
      then have "df_getitem data col1 = Inl (KeyError [col1])" by (rule df_getitem_absent)
      then show ?thesis by (simp add: merge_columns_def merge_columns_button_def commit_def)
    next
      case True
      with assms obtain a where a: "df_getitem data col1 = Inr a" using df_getitem_total by blast
      from True m have "col2 \<notin> set (columns data)" by simp
      then have "df_getitem data col2 = Inl (KeyError [col2])" by (rule df_getitem_absent)
      with a show ?thesis by (simp add: merge_columns_def merge_columns_button_def commit_def)
    qed
  qed
  have upd: "column \<notin> set (columns data) \<longrightarrow>
           conditional_update parse data column match_value new_val = (data, Inl (KeyError [column]))
           \<and> (column \<noteq> [] \<and> condition \<noteq> [] \<and> new_value \<noteq> [] \<longrightarrow>
                update_button parse data column condition new_value = (Raised (KeyError [column]), data))"
  proof
    assume "column \<notin> set (columns data)"
    then have g: "df_getitem data column = Inl (KeyError [column])" by (rule df_getitem_absent)
    then show "conditional_update parse data column match_value new_val = (data, Inl (KeyError [column]))
           \<and> (column \<noteq> [] \<and> condition \<noteq> [] \<and> new_value \<noteq> [] \<longrightarrow>
                update_button parse data column condition new_value = (Raised (KeyError [column]), data))"
      by (simp add: conditional_update_def update_button_def commit_def)
  qed
  have ren: "old \<notin> set (columns data) \<longrightarrow> rename_column data old new = (data, Inr data)"
  proof
    assume "old \<notin> set (columns data)"
    then have "\<forall>p \<in> set (cols data). (if fst p = old then (new, snd p) else p) = p"
      by (auto simp: columns_def)
    then have "map (\<lambda>p. if fst p = old then (new, snd p) else p) (cols data) = cols data"
      by (simp add: map_idI)
    then show "rename_column data old new = (data, Inr data)"
      by (simp add: rename_column_def df_rename_def)
  qed
  have b1: "add_column_button data [] default_value = (Failure ''Column name cannot be empty'', data)"
    by (simp add: add_column_button_def)
  have b2: "merge_columns_button data col1 col2 [] drop_originals
            = (Failure ''Please provide all details for merging columns'', data)"
    by (simp add: merge_columns_button_def)
  have b3: "rename_column_button data old []
            = (Failure ''Please provide both the old and new column names'', data)"
    by (simp add: rename_column_button_def)
  from rem mer upd ren b1 b2 b3 show ?thesis by (intro conjI)
qed

theorem failed_operation_leaves_table_witness:
  "distinct (columns \<lparr>nrows = 1, cols = [(''a'', [VInt 1])]\<rparr>)
   \<and> \<not> set [''z''] \<subseteq> set (columns \<lparr>nrows = 1, cols = [(''a'', [VInt 1])]\<rparr>)
   \<and> ''z'' \<notin> set (columns \<lparr>nrows = 1, cols = [(''a'', [VInt 1])]\<rparr>)
   \<and> remove_columns_button \<lparr>nrows = 1, cols = [(''a'', [VInt 1])]\<rparr> [''z'']
        = (Raised (KeyError [''z'']), \<lparr>nrows = 1, cols = [(''a'', [VInt 1])]\<rparr>)
   \<and> merge_columns_button \<lparr>nrows = 1, cols = [(''a'', [VInt 1])]\<rparr> ''a'' ''z'' ''m'' True
        = (Raised (KeyError [''z'']), \<lparr>nrows = 1, cols = [(''a'', [VInt 1])]\<rparr>)
   \<and> update_button Map.empty \<lparr>nrows = 1, cols = [(''a'', [VInt 1])]\<rparr> ''z'' ''x'' ''y''
        = (Raised (KeyError [''z'']), \<lparr>nrows = 1, cols = [(''a'', [VInt 1])]\<rparr>)
   \<and> rename_column \<lparr>nrows = 1, cols = [(''a'', [VInt 1])]\<rparr> ''z'' ''b''
        = (\<lparr>nrows = 1, cols = [(''a'', [VInt 1])]\<rparr>, Inr \<lparr>nrows = 1, cols = [(''a'', [VInt 1])]\<rparr>)"
proof -
  let ?T = "\<lparr>nrows = 1, cols = [(''a'', [VInt 1])]\<rparr>"
  have d: "distinct (columns ?T)" and z: "''z'' \<notin> set (columns ?T)" by (simp_all add: columns_def)
  from z have s: "\<not> set [''z''] \<subseteq> set (columns ?T)" by simp
  have ne: "''z'' \<noteq> [] \<and> ''x'' \<noteq> [] \<and> ''y'' \<noteq> []" by simp
  note th = failed_operation_leaves_table [OF d, where column = "''z''" and condition = "''x''"
      and new_value = "''y''" and old = "''z''" and new = "''b''" and parse = Map.empty]
  note c3 = th [THEN conjunct2, THEN conjunct2, THEN conjunct1, THEN mp, OF z]
  note c4 = th [THEN conjunct2, THEN conjunct2, THEN conjunct2, THEN conjunct1, THEN mp, OF z]
  have u: "update_button Map.empty ?T ''z'' ''x'' ''y'' = (Raised (KeyError [''z'']), ?T)"
    using c3 [THEN conjunct2, THEN mp, OF ne] .
  have r: "rename_column ?T ''z'' ''b'' = (?T, Inr ?T)"
    using c4 .
  have rm: "remove_columns_button ?T [''z''] = (Raised (KeyError [''z'']), ?T)"
    by (simp add: remove_columns_button_def remove_columns_def df_drop_def columns_def commit_def)
  have mg: "merge_columns_button ?T ''a'' ''z'' ''m'' True = (Raised (KeyError [''z'']), ?T)"
    by (simp add: merge_columns_button_def merge_columns_def df_getitem_def commit_def)
  from d s z rm mg u r show ?thesis by (intro conjI)
qed


section \<open>Saving\<close>

text \<open>
  C10: \<open>save_data\<close> empties the collection before it inserts, so what it leaves depends on
  the frame alone and never on the documents that were there; and for a frame without rows
  the insertion is refused (\<open>TypeError\<close>: the list of documents is empty) after the
  deletion is done, which leaves the collection empty.
\<close>

theorem save_data_of_empty_table_empties_collection:
  "save_data new_id collection data = insert_many new_id [] (to_dict_records data)
   \<and> (nrows data = 0 \<longrightarrow>
        save_data new_id collection data
          = ([], Inl (TypeError ''documents must be a non-empty list'')))"
  by (simp add: save_data_def delete_many_all_def insert_many_def to_dict_records_def)

theorem save_data_of_empty_table_empties_collection_witness:
  "nrows \<lparr>nrows = 0, cols = [(''a'', [])]\<rparr> = 0
   \<and> save_data (\<lambda>n. VInt (int n)) [[(''_id'', VInt 7), (''a'', VStr ''x'')]] \<lparr>nrows = 0, cols = [(''a'', [])]\<rparr>
       = ([], Inl (TypeError ''documents must be a non-empty list''))"
  using save_data_of_empty_table_empties_collection
          [of "\<lambda>n. VInt (int n)" "[[(''_id'', VInt 7), (''a'', VStr ''x'')]]" "\<lparr>nrows = 0, cols = [(''a'', [])]\<rparr>"]
  by (simp add: insert_many_def to_dict_records_def)


section \<open>A query that fails\<close>

text \<open>
  C5: when the engine raises on the query (over the serialised frame), \<open>execute_sql_query\<close>
  raises the same, carrying the engine's message, and the frame passed in is as it was;
  the handler in \<open>main\<close> catches the exception, reports its message after
  \<open>Error executing SQL query: \<close> and leaves the session's frame in place. (An empty query
  is reported by the handler without the engine being called.)
\<close>

theorem failed_query_leaves_table:
  assumes "sqldf query (serialize_dataframe data) = Inl msg"
  shows "execute_sql_query sqldf data query = (data, Inl msg)
       \<and> (query \<noteq> [] \<longrightarrow>
            execute_sql_button sqldf data query = (Failure (''Error executing SQL query: '' @ msg), data))
       \<and> (query = [] \<longrightarrow>
            execute_sql_button sqldf data query = (Failure ''Please enter a SQL query'', data))"
  using assms by (simp add: execute_sql_query_def execute_sql_button_def)

theorem failed_query_leaves_table_witness:
  "(\<lambda>q d. Inl ''near SELEC: syntax error'' :: string + dataframe)
       ''SELEC'' (serialize_dataframe \<lparr>nrows = 1, cols = [(''a'', [VList [VInt 1]])]\<rparr>)
     = Inl ''near SELEC: syntax error''
   \<and> ''SELEC'' \<noteq> []
   \<and> execute_sql_button (\<lambda>q d. Inl ''near SELEC: syntax error'')
        \<lparr>nrows = 1, cols = [(''a'', [VList [VInt 1]])]\<rparr> ''SELEC''
     = (Failure (''Error executing SQL query: '' @ ''near SELEC: syntax error''),
        \<lparr>nrows = 1, cols = [(''a'', [VList [VInt 1]])]\<rparr>)"
proof -
  let ?e = "\<lambda>(q::string) (d::dataframe). Inl ''near SELEC: syntax error'' :: string + dataframe"
  let ?T = "\<lparr>nrows = 1, cols = [(''a'', [VList [VInt 1]])]\<rparr>"
  have h: "?e ''SELEC'' (serialize_dataframe ?T) = Inl ''near SELEC: syntax error''" by (rule refl)
  have ne: "''SELEC'' \<noteq> []" by simp
  note th = failed_query_leaves_table [of ?e "''SELEC''" ?T "''near SELEC: syntax error''", OF h]
  have b: "execute_sql_button ?e ?T ''SELEC''
     = (Failure (''Error executing SQL query: '' @ ''near SELEC: syntax error''), ?T)"
    using th [THEN conjunct2, THEN conjunct1, THEN mp, OF ne] .
  from h ne b show ?thesis by (intro conjI)
qed


section \<open>From documents to a table and back\<close>

lemma set_first_seen [simp]: "set (first_seen xs) = set xs"
  by (induction xs) auto

lemma distinct_first_seen [simp]: "distinct (first_seen xs)"
  by (induction xs) auto






lemma nrows_DataFrame [simp]: "nrows (DataFrame convert docs) = length docs"
  by (simp add: DataFrame_def Let_def)











section \<open>Serialised cells\<close>

subsection \<open>Reading back what \<open>json.dumps\<close> writes\<close>

lemma of_char_digit_char:
  "n < 10 \<Longrightarrow> (of_char (digit_char n) :: nat) = 48 + n"
  by (simp add: digit_char_def)

lemma is_digit_digit_char:
  "n < 10 \<Longrightarrow> is_digit (digit_char n)"
  by (simp add: is_digit_def of_char_digit_char)

lemma nat_repr_digits:
  "list_all is_digit (nat_repr n)"
proof (induction n rule: nat_repr.induct)
  case (1 n)
  show ?case
  proof (cases "n < 10")
    case True
    then show ?thesis by (simp add: nat_repr.simps [of n] is_digit_digit_char)
  next
    case False
    with 1 show ?thesis by (simp add: nat_repr.simps [of n] is_digit_digit_char)
  qed
qed

lemma nat_repr_nonempty:
  "nat_repr n \<noteq> []"
  by (subst nat_repr.simps) simp

lemma digits_val_snoc:
  "digits_val (ds @ [c]) = 10 * digits_val ds + ((of_char c :: nat) - 48)"
  by (simp add: digits_val_def)

lemma digits_val_nat_repr:
  "digits_val (nat_repr n) = n"
proof (induction n rule: nat_repr.induct)
  case (1 n)
  show ?case
  proof (cases "n < 10")
    case True
    then show ?thesis by (simp add: nat_repr.simps [of n] digits_val_def of_char_digit_char)
  next
    case False
    with 1 have "digits_val (nat_repr (n div 10)) = n div 10" by simp
    with False show ?thesis
      by (simp add: nat_repr.simps [of n] digits_val_snoc of_char_digit_char)
  qed
qed

lemma nat_repr_leading_zero:
  "hd (nat_repr n) = CHR ''0'' \<Longrightarrow> n = 0"
proof (induction n rule: nat_repr.induct)
  case (1 n)
  show ?case
  proof (cases "n < 10")
    case True
    with 1(2) have "digit_char n = CHR ''0''" by (simp add: nat_repr.simps [of n])
    then have "(of_char (digit_char n) :: nat) = of_char CHR ''0''" by simp
    with True show ?thesis by (simp add: of_char_digit_char)
  next
    case False
    with 1(2) have "hd (nat_repr (n div 10)) = CHR ''0''"
      by (simp add: nat_repr.simps [of n] nat_repr_nonempty)
    with 1(1) False have "n div 10 = 0" by simp
    with False show ?thesis by simp
  qed
qed

lemma number_token_digits:
  assumes "list_all is_digit ds" and "ds \<noteq> []" and "hd ds = CHR ''0'' \<longrightarrow> length ds = 1"
  shows "number_token ds = Some (VInt (int (digits_val ds)))"
    and "number_token (CHR ''-'' # ds) = Some (VInt (- int (digits_val ds)))"
proof -
  from assms(2) obtain c cs where ds: "ds = c # cs" by (cases ds) auto
  with assms(1) have "is_digit c" by simp
  then have c: "c \<noteq> CHR ''-''" by (auto simp: is_digit_def)
  have t: "takeWhile is_digit ds = ds" and d: "dropWhile is_digit ds = []"
    using assms(1) by (simp_all add: list_all_iff)
  from c have "take 1 ds \<noteq> ''-''" by (simp add: ds)
  then show "number_token ds = Some (VInt (int (digits_val ds)))"
    using assms(2,3) by (simp add: number_token_def Let_def t d)
  show "number_token (CHR ''-'' # ds) = Some (VInt (- int (digits_val ds)))"
    using assms(2,3) by (simp add: number_token_def Let_def t d)
qed

lemma number_token_int_repr:
  "number_token (int_repr i) = Some (VInt i)"
proof -
  have z: "hd (nat_repr m) = CHR ''0'' \<longrightarrow> length (nat_repr m) = 1" for m
  proof
    assume "hd (nat_repr m) = CHR ''0''"
    then have "m = 0" by (rule nat_repr_leading_zero)
    then show "length (nat_repr m) = 1" by (simp add: nat_repr.simps [of 0])
  qed
  show ?thesis
    using number_token_digits [OF nat_repr_digits nat_repr_nonempty z]
    by (simp add: int_repr_def digits_val_nat_repr)
qed

lemma number_char_int_repr:
  "list_all number_char (int_repr i)"
proof -
  have "list_all number_char (nat_repr m)" for m
    using nat_repr_digits [of m] by (simp add: list_all_iff number_char_def)
  then show ?thesis by (simp add: int_repr_def number_char_def)
qed

lemma int_repr_nonempty:
  "int_repr i \<noteq> []"
  by (simp add: int_repr_def nat_repr_nonempty)

lemma number_span:
  assumes "list_all number_char t" and "rest = [] \<or> \<not> number_char (hd rest)"
  shows "takeWhile number_char (t @ rest) = t" and "dropWhile number_char (t @ rest) = rest"
proof -
  have r: "takeWhile number_char rest = []" "dropWhile number_char rest = rest"
    using assms(2) by (cases rest; simp)+
  from assms(1) have a: "\<forall>x \<in> set t. number_char x" by (simp add: list_all_iff)
  show "takeWhile number_char (t @ rest) = t"
    using a r by (simp add: takeWhile_append2)
  show "dropWhile number_char (t @ rest) = rest"
    using a r by (simp add: dropWhile_append2)
qed

lemma hex_val_hex_char:
  "k < 16 \<Longrightarrow> hex_val (hex_char k) = Some k"
  by (simp add: hex_val_def hex_char_def digit_char_def Let_def)

lemma escape_sequence_hex2:
  "escape_sequence ([CHR ''u'', CHR ''0'', CHR ''0''] @ hex2 c @ t) = Some (c, 5)"
proof -
  let ?n = "of_char c :: nat"
  have n: "?n < 256" by simp
  have lt: "?n div 16 < 16" "?n mod 16 < 16"
    using n by arith+
  have z: "hex_val CHR ''0'' = Some 0" by (simp add: hex_val_def)
  have "?n div 16 * 16 + ?n mod 16 = ?n" by simp
  then show ?thesis
    by (simp add: escape_sequence_def hex2_def z hex_val_hex_char lt)
qed

lemma scan_string_escape:
  "scan_string (json_escape_char c @ t) = map_option (\<lambda>(s, r). (c # s, r)) (scan_string t)"
proof -
  consider (quote) "c = CHR 0x22" | (backslash) "c = CHR 0x5C" | (b) "c = CHR 0x08"
    | (f) "c = CHR 0x0C" | (n) "c = CHR 0x0A" | (r) "c = CHR 0x0D" | (t) "c = CHR 0x09"
    | (plain) "c \<notin> {CHR 0x22, CHR 0x5C, CHR 0x08, CHR 0x0C, CHR 0x0A, CHR 0x0D, CHR 0x09}"
        "32 \<le> (of_char c :: nat) \<and> (of_char c :: nat) \<le> 126"
    | (other) "c \<notin> {CHR 0x22, CHR 0x5C, CHR 0x08, CHR 0x0C, CHR 0x0A, CHR 0x0D, CHR 0x09}"
        "\<not> (32 \<le> (of_char c :: nat) \<and> (of_char c :: nat) \<le> 126)"
    by blast
  then show ?thesis
  proof cases
    case plain
    then show ?thesis by (simp add: json_escape_char_def)
  next
    case other
    then have "json_escape_char c @ t = CHR 0x5C # ([CHR ''u'', CHR ''0'', CHR ''0''] @ hex2 c @ t)"
      by (simp add: json_escape_char_def)
    then show ?thesis
      by (simp only: scan_string.simps escape_sequence_hex2) (simp add: hex2_def)
  qed (simp_all add: json_escape_char_def escape_sequence_def simple_escape_def)
qed

lemma scan_string_encoded:
  "scan_string (concat (map json_escape_char s) @ CHR 0x22 # rest) = Some (s, rest)"
  by (induction s) (simp_all add: scan_string_escape)

lemma parse_value_space:
  "parse_value n (CHR 0x20 # s) = parse_value n s"
  by (cases n) (simp_all add: skip_ws_def whitespace_def)

lemma parse_elements_space:
  "parse_elements n (CHR 0x20 # s) = parse_elements n s"
  by (cases n) (simp_all add: parse_value_space)

lemma parse_members_space:
  "parse_members n (CHR 0x20 # s) = parse_members n s"
  by (cases n) (simp_all add: skip_ws_def whitespace_def)

lemma parse_value_string:
  "parse_value (Suc n) (encode_basestring_ascii s @ rest) = Some (VStr s, rest)"
  by (simp add: encode_basestring_ascii_def skip_ws_def whitespace_def scan_string_encoded)

lemma parse_value_literals:
  "parse_value (Suc n) (''null'' @ rest) = Some (VNone, rest)"
  "parse_value (Suc n) (''true'' @ rest) = Some (VBool True, rest)"
  "parse_value (Suc n) (''false'' @ rest) = Some (VBool False, rest)"
  by (simp_all add: skip_ws_def whitespace_def)

lemma number_char_first:
  assumes "number_char c"
  shows "\<not> whitespace c" and "c \<noteq> CHR ''[''" and "c \<noteq> CHR ''{''" and "c \<noteq> CHR 0x22"
    and "c \<noteq> CHR '']''" and "c \<noteq> CHR ''}''" and "c \<noteq> CHR ''t''" and "c \<noteq> CHR ''f''"
    and "c \<noteq> CHR ''n''"
  using assms by (auto simp: number_char_def is_digit_def whitespace_def)

lemma parse_value_number:
  assumes "list_all number_char t" and "t \<noteq> []" and "rest = [] \<or> \<not> number_char (hd rest)"
  shows "parse_value (Suc n) (t @ rest) = map_option (\<lambda>v. (v, rest)) (number_token t)"
proof -
  from assms(2) obtain c cs where t: "t = c # cs" by (cases t) auto
  with assms(1) have c: "number_char c" by simp
  have sp: "takeWhile number_char (c # cs @ rest) = c # cs" "dropWhile number_char (c # cs @ rest) = rest"
    using number_span [OF assms(1,3)] by (simp_all add: t)
  have sk: "skip_ws (c # cs @ rest) = c # cs @ rest"
    using number_char_first(1) [OF c] by (simp add: skip_ws_def)
  show ?thesis
    unfolding t append_Cons parse_value.simps sk list.case
    using number_char_first [OF c] by (simp add: sp del: takeWhile.simps dropWhile.simps)
qed

lemma float_literal_nonempty:
  "float_literal r \<Longrightarrow> r \<noteq> []"
  by (auto simp: float_literal_def number_token_def)

lemma json_dumps_first:
  assumes "finite_numbers v"
  shows "\<exists>c cs. json_dumps v = c # cs \<and> \<not> whitespace c \<and> c \<noteq> CHR '']''"
proof (cases v)
  case (VInt i)
  obtain c cs where r: "int_repr i = c # cs" using int_repr_nonempty [of i] by (cases "int_repr i") auto
  with number_char_int_repr [of i] have "number_char c" by simp
  from number_char_first(1,5) [OF this] r VInt show ?thesis by simp
next
  case (VFloat r)
  with assms have f: "float_literal r" by simp
  then obtain c cs where r: "r = c # cs" using float_literal_nonempty by (cases r) auto
  with f have "number_char c" by (simp add: float_literal_def)
  from number_char_first(1,5) [OF this] r VFloat show ?thesis by simp
qed (use assms in \<open>simp_all add: whitespace_def encode_basestring_ascii_def\<close>)

lemma json_dumps_list_first:
  assumes "xs \<noteq> []" and "finite_numbers_list xs"
  shows "\<exists>c cs. json_dumps_list xs = c # cs \<and> \<not> whitespace c \<and> c \<noteq> CHR '']''"
proof -
  from assms(1) obtain x ys where xs: "xs = x # ys" by (cases xs) auto
  with assms(2) have "finite_numbers x" by simp
  from json_dumps_first [OF this] obtain c cs
    where "json_dumps x = c # cs" "\<not> whitespace c" "c \<noteq> CHR '']''" by blast
  then show ?thesis unfolding xs by (cases ys) simp_all
qed

lemma json_dumps_items_first:
  assumes "kvs \<noteq> []"
  shows "\<exists>cs. json_dumps_items kvs = CHR 0x22 # cs"
proof -
  from assms obtain k v ys where kvs: "kvs = (k, v) # ys" by (cases kvs) auto
  show ?thesis unfolding kvs by (cases ys) (simp_all add: encode_basestring_ascii_def)
qed

lemma parse_dumps:
  "finite_numbers v \<Longrightarrow> length (json_dumps v) \<le> n \<Longrightarrow> rest = [] \<or> \<not> number_char (hd rest)
     \<Longrightarrow> parse_value n (json_dumps v @ rest) = Some (stringified v, rest)"
  "xs \<noteq> [] \<Longrightarrow> finite_numbers_list xs \<Longrightarrow> length (json_dumps_list xs) < m
     \<Longrightarrow> parse_elements m (json_dumps_list xs @ CHR '']'' # rest1) = Some (stringified_list xs, rest1)"
  "kvs \<noteq> [] \<Longrightarrow> finite_numbers_items kvs \<Longrightarrow> length (json_dumps_items kvs) < l
     \<Longrightarrow> parse_members l (json_dumps_items kvs @ CHR ''}'' # rest2) = Some (stringified_items kvs, rest2)"
proof (induction v and xs and kvs arbitrary: n rest and m rest1 and l rest2
    rule: json_dumps_json_dumps_list_json_dumps_items.induct)
  case 1
  then obtain k where "n = Suc k" by (cases n) auto
  then show ?case using parse_value_literals(1) [of k rest] by (simp del: parse_value.simps)
next
  case 2
  then show ?case by simp
next
  case (3 b)
  then obtain k where "n = Suc k" by (cases n) (auto split: if_splits)
  then show ?case using parse_value_literals(2,3) [of k rest] by (simp del: parse_value.simps)
next
  case (4 i)
  from 4(2) int_repr_nonempty [of i] obtain k where n: "n = Suc k" by (cases n) auto
  show ?case
    unfolding n json_dumps.simps
    using parse_value_number [of "int_repr i" rest k, OF number_char_int_repr int_repr_nonempty 4(3)]
    by (simp add: number_token_int_repr del: parse_value.simps)
next
  case (5 s)
  then obtain k where "n = Suc k" by (cases n) (auto simp: encode_basestring_ascii_def)
  then show ?case by (simp add: parse_value_string del: parse_value.simps)
next
  case (6 r)
  then have f: "float_literal r" by simp
  from 6(2) float_literal_nonempty [OF f] obtain k where n: "n = Suc k" by (cases n) auto
  from f have a: "list_all number_char r" and t: "number_token r = Some (VFloat r)"
    by (simp_all add: float_literal_def)
  show ?case
    unfolding n json_dumps.simps
    using parse_value_number [of r rest k, OF a float_literal_nonempty [OF f] 6(3)]
    by (simp add: t del: parse_value.simps)
next
  case (7 t)
  then obtain k where "n = Suc k" by (cases n) (auto simp: encode_basestring_ascii_def)
  then show ?case by (simp add: parse_value_string del: py_str.simps parse_value.simps)
next
  case (8 t)
  then obtain k where "n = Suc k" by (cases n) (auto simp: encode_basestring_ascii_def)
  then show ?case by (simp add: parse_value_string del: py_str.simps parse_value.simps)
next
  case 9
  then obtain k where "n = Suc k" by (cases n) (auto simp: encode_basestring_ascii_def)
  then show ?case by (simp add: parse_value_string del: py_str.simps parse_value.simps)
next
  case (10 s r)
  then obtain k where "n = Suc k" by (cases n) (auto simp: encode_basestring_ascii_def)
  then show ?case by (simp add: parse_value_string del: py_str.simps parse_value.simps)
next
  case (11 xs)
  from 11(3) obtain k where n: "n = Suc k" by (cases n) auto
  show ?case
  proof (cases "xs = []")
    case True
    then show ?thesis by (simp add: n skip_ws_def whitespace_def)
  next
    case False
    from 11(2) have fin: "finite_numbers_list xs" by simp
    from 11(3) have len: "length (json_dumps_list xs) < k" by (simp add: n)
    from json_dumps_list_first [OF False fin] obtain c cs
      where c: "json_dumps_list xs = c # cs" "\<not> whitespace c" "c \<noteq> CHR '']''" by blast
    have el: "parse_elements k (json_dumps_list xs @ CHR '']'' # rest) = Some (stringified_list xs, rest)"
      using False fin len by (rule 11(1))
    have sk: "skip_ws (json_dumps_list xs @ CHR '']'' # rest) = c # cs @ CHR '']'' # rest"
      using c by (simp add: skip_ws_def)
    have "parse_value (Suc k) (CHR ''['' # json_dumps_list xs @ CHR '']'' # rest)
            = Some (VList (stringified_list xs), rest)"
      by (simp add: skip_ws_def [of "CHR ''['' # json_dumps_list xs @ CHR '']'' # rest"]
            whitespace_def [of "CHR ''[''"] sk c(3) el)
    then show ?thesis by (simp add: n)
  qed
next
  case (12 kvs)
  from 12(3) obtain k where n: "n = Suc k" by (cases n) auto
  show ?case
  proof (cases "kvs = []")
    case True
    then show ?thesis by (simp add: n skip_ws_def whitespace_def)
  next
    case False
    from 12(2) have fin: "finite_numbers_items kvs" by simp
    from 12(3) have len: "length (json_dumps_items kvs) < k" by (simp add: n)
    from json_dumps_items_first [OF False] obtain cs
      where c: "json_dumps_items kvs = CHR 0x22 # cs" by blast
    have el: "parse_members k (json_dumps_items kvs @ CHR ''}'' # rest) = Some (stringified_items kvs, rest)"
      using False fin len by (rule 12(1))
    have sk: "skip_ws (json_dumps_items kvs @ CHR ''}'' # rest) = CHR 0x22 # cs @ CHR ''}'' # rest"
      using c by (simp add: skip_ws_def whitespace_def)
    have "parse_value (Suc k) (CHR ''{'' # json_dumps_items kvs @ CHR ''}'' # rest)
            = Some (VDict (stringified_items kvs), rest)"
      by (simp add: skip_ws_def [of "CHR ''{'' # json_dumps_items kvs @ CHR ''}'' # rest"]
            whitespace_def [of "CHR ''{''"] sk el)
    then show ?thesis by (simp add: n)
  qed
next
  case 13
  then show ?case by simp
next
  case (14 x)
  from 14(4) obtain k where m: "m = Suc k" by (cases m) auto
  from 14(3) have fin: "finite_numbers x" by simp
  from 14(4) have len: "length (json_dumps x) \<le> k" by (simp add: m)
  have d: "CHR '']'' # rest1 = [] \<or> \<not> number_char (hd (CHR '']'' # rest1))"
    by (simp add: number_char_def is_digit_def)
  have "parse_value k (json_dumps x @ CHR '']'' # rest1) = Some (stringified x, CHR '']'' # rest1)"
    using fin len d by (rule 14(1))
  then show ?case by (simp add: m skip_ws_def whitespace_def)
next
  case (15 x y xs)
  from 15(5) obtain k where m: "m = Suc k" by (cases m) auto
  let ?tail = "json_dumps_list (y # xs) @ CHR '']'' # rest1"
  from 15(4) have fin: "finite_numbers x" and fins: "finite_numbers_list (y # xs)" by simp_all
  from 15(5) have len: "length (json_dumps x) \<le> k" and lens: "length (json_dumps_list (y # xs)) < k"
    by (simp_all add: m)
  have d: "CHR '','' # CHR 0x20 # ?tail = [] \<or> \<not> number_char (hd (CHR '','' # CHR 0x20 # ?tail))"
    by (simp add: number_char_def is_digit_def)
  have v: "parse_value k (json_dumps x @ CHR '','' # CHR 0x20 # ?tail)
             = Some (stringified x, CHR '','' # CHR 0x20 # ?tail)"
    using fin len d by (rule 15(1))
  have ne: "y # xs \<noteq> []" by simp
  have e: "parse_elements k ?tail = Some (stringified_list (y # xs), rest1)"
    using ne fins lens by (rule 15(2))
  have "parse_elements (Suc k) (json_dumps x @ CHR '','' # CHR 0x20 # ?tail)
          = Some (stringified x # stringified_list (y # xs), rest1)"
    by (simp add: v skip_ws_def [of "CHR '','' # CHR 0x20 # ?tail"] whitespace_def [of "CHR '',''"]
          parse_elements_space e del: json_dumps_list.simps stringified_list.simps)
  then show ?case by (simp add: m)
next
  case 16
  then show ?case by simp
next
  case (17 k v)
  from 17(4) obtain j where l: "l = Suc j" by (cases l) auto
  from 17(3) have fin: "finite_numbers v" by simp
  from 17(4) have len: "length (json_dumps v) \<le> j" by (simp add: l)
  have d: "CHR ''}'' # rest2 = [] \<or> \<not> number_char (hd (CHR ''}'' # rest2))"
    by (simp add: number_char_def is_digit_def)
  have v: "parse_value j (json_dumps v @ CHR ''}'' # rest2) = Some (stringified v, CHR ''}'' # rest2)"
    using fin len d by (rule 17(1))
  have "parse_members (Suc j)
          (CHR 0x22 # concat (map json_escape_char k) @ CHR 0x22 # CHR '':'' # CHR 0x20 # json_dumps v @ CHR ''}'' # rest2)
          = Some ([(k, stringified v)], rest2)"
    by (simp add: skip_ws_def whitespace_def scan_string_encoded parse_value_space v)
  then show ?case by (simp add: l encode_basestring_ascii_def)
next
  case (18 k v p kvs)
  from 18(5) obtain j where l: "l = Suc j" by (cases l) auto
  let ?tail = "json_dumps_items (p # kvs) @ CHR ''}'' # rest2"
  from 18(4) have fin: "finite_numbers v" and fins: "finite_numbers_items (p # kvs)"
    by (cases p; simp)+
  from 18(5) have len: "length (json_dumps v) \<le> j" and lens: "length (json_dumps_items (p # kvs)) < j"
    by (simp_all add: l)
  have d: "CHR '','' # CHR 0x20 # ?tail = [] \<or> \<not> number_char (hd (CHR '','' # CHR 0x20 # ?tail))"
    by (simp add: number_char_def is_digit_def)
  have v: "parse_value j (json_dumps v @ CHR '','' # CHR 0x20 # ?tail)
             = Some (stringified v, CHR '','' # CHR 0x20 # ?tail)"
    using fin len d by (rule 18(1))
  have ne: "p # kvs \<noteq> []" by simp
  have e: "parse_members j ?tail = Some (stringified_items (p # kvs), rest2)"
    using ne fins lens by (rule 18(2))
  have "parse_members (Suc j)
          (CHR 0x22 # concat (map json_escape_char k) @ CHR 0x22 # CHR '':'' # CHR 0x20 #
             json_dumps v @ CHR '','' # CHR 0x20 # ?tail)
          = Some ((k, stringified v) # stringified_items (p # kvs), rest2)"
    by (simp add: skip_ws_def [of "CHR 0x22 # _"] skip_ws_def [of "CHR '':'' # _"]
          skip_ws_def [of "CHR '','' # _"] whitespace_def scan_string_encoded parse_value_space v
          parse_members_space e del: json_dumps_items.simps stringified_items.simps)
  then show ?case by (simp add: l encode_basestring_ascii_def)
qed

lemma json_loads_json_dumps:
  assumes "finite_numbers v"
  shows "json_loads (json_dumps v) = Some (stringified v)"
proof -
  have "parse_value (Suc (length (json_dumps v))) (json_dumps v @ []) = Some (stringified v, [])"
    using assms by (rule parse_dumps(1)) simp_all
  then show ?thesis by (simp add: json_loads_def skip_ws_def del: parse_value.simps)
qed

subsection \<open>The claim on serialised cells\<close>

text \<open>
  Claim C6 says that a list or a dictionary is serialised to a syntactically valid JSON
  text, and that every other value than a sequence, a document or a timestamp is returned
  unchanged. \<open>json.dumps\<close> writes the float \<open>nan\<close> as the token \<open>NaN\<close>, which JSON does not
  have: the text of a list that holds \<open>nan\<close> is not a JSON text. And \<open>NaT\<close>, the missing
  value of a \<open>datetime64\<close> column, is an instance of \<open>datetime\<close>: it is replaced by the
  text \<open>NaT\<close>, which is not an ISO-8601 text.
\<close>

theorem nan_in_a_list_is_not_json:
  "serialize_complex_data (VList [VInt 1, VNaN]) = VStr ''[1, NaN]''
   \<and> json_loads ''[1, NaN]'' = None
   \<and> json_loads ''[1, null]'' = Some (VList [VInt 1, VNone])
   \<and> serialize_complex_data VNaT = VStr ''NaT''"
  by code_simp

text \<open>
  C6, as the code has it. A list or a dictionary is replaced by the text \<open>json.dumps\<close>
  gives for it; when no \<open>nan\<close> is in it at any depth (and its floats are finite), that
  text is a JSON text, and it decodes to the value in which the objects JSON has no form
  for (datetimes, timestamps, \<open>NaT\<close>, other objects) are replaced by their \<open>str\<close>. A
  \<open>datetime\<close> or a \<open>Timestamp\<close> is replaced by its \<open>isoformat()\<close>, \<open>NaT\<close> by the text
  \<open>NaT\<close>. Every other value is returned as it is. \<open>serialize_dataframe\<close> keeps the rows
  and the labels, and each cell of its result is the serialised cell at the same place.
\<close>

theorem serialize_complex_data_spec:
  "(list_or_dict v \<longrightarrow> serialize_complex_data v = VStr (json_dumps v))
   \<and> (list_or_dict v \<and> finite_numbers v \<longrightarrow> json_loads (json_dumps v) = Some (stringified v))
   \<and> serialize_complex_data (VTime t) = VStr (isoformat t)
   \<and> serialize_complex_data (VTimestamp t) = VStr (isoformat t)
   \<and> serialize_complex_data VNaT = VStr ''NaT''
   \<and> (\<not> list_or_dict v \<and> \<not> datetime_instance v \<longrightarrow> serialize_complex_data v = v)
   \<and> nrows (serialize_dataframe data) = nrows data
   \<and> columns (serialize_dataframe data) = columns data
   \<and> map snd (cols (serialize_dataframe data)) = map (map serialize_complex_data) (map snd (cols data))"
proof -
  have a: "list_or_dict v \<longrightarrow> serialize_complex_data v = VStr (json_dumps v)"
    by (cases v) (simp_all add: list_or_dict_def)
  have b: "list_or_dict v \<and> finite_numbers v \<longrightarrow> json_loads (json_dumps v) = Some (stringified v)"
    using json_loads_json_dumps [of v] by blast
  have c: "\<not> list_or_dict v \<and> \<not> datetime_instance v \<longrightarrow> serialize_complex_data v = v"
    by (cases v) (simp_all add: list_or_dict_def datetime_instance_def)
  have d: "nrows (serialize_dataframe data) = nrows data"
    by (simp add: serialize_dataframe_def applymap_def)
  have e: "columns (serialize_dataframe data) = columns data"
    by (simp add: serialize_dataframe_def applymap_def columns_def comp_def)
  have f: "map snd (cols (serialize_dataframe data)) = map (map serialize_complex_data) (map snd (cols data))"
    by (simp add: serialize_dataframe_def applymap_def comp_def)
  have g: "serialize_complex_data (VTime t) = VStr (isoformat t)"
    "serialize_complex_data (VTimestamp t) = VStr (isoformat t)"
    "serialize_complex_data VNaT = VStr ''NaT''"
    by simp_all
  from a b g c d e f show ?thesis by (intro conjI)
qed

theorem serialize_complex_data_spec_witness:
  "list_or_dict (VDict [(''tags'', VList [VInt 1, VFloat ''-2.5e-07'', VNone, VBool True]),
                       (''when'', VTime \<lparr>year = 2020, month = 1, day = 2, hour = 3, minute = 4, second = 5, microsecond = 0\<rparr>)])
   \<and> finite_numbers (VDict [(''tags'', VList [VInt 1, VFloat ''-2.5e-07'', VNone, VBool True]),
                       (''when'', VTime \<lparr>year = 2020, month = 1, day = 2, hour = 3, minute = 4, second = 5, microsecond = 0\<rparr>)])
   \<and> json_loads (json_dumps (VDict [(''tags'', VList [VInt 1, VFloat ''-2.5e-07'', VNone, VBool True]),
                       (''when'', VTime \<lparr>year = 2020, month = 1, day = 2, hour = 3, minute = 4, second = 5, microsecond = 0\<rparr>)]))
       = Some (stringified (VDict [(''tags'', VList [VInt 1, VFloat ''-2.5e-07'', VNone, VBool True]),
                       (''when'', VTime \<lparr>year = 2020, month = 1, day = 2, hour = 3, minute = 4, second = 5, microsecond = 0\<rparr>)]))
   \<and> stringified (VDict [(''tags'', VList [VInt 1, VFloat ''-2.5e-07'', VNone, VBool True]),
                       (''when'', VTime \<lparr>year = 2020, month = 1, day = 2, hour = 3, minute = 4, second = 5, microsecond = 0\<rparr>)])
       = VDict [(''tags'', VList [VInt 1, VFloat ''-2.5e-07'', VNone, VBool True]),
                (''when'', VStr ''2020-01-02 03:04:05'')]
   \<and> json_dumps (VDict [(''tags'', VList [VInt 1, VFloat ''-2.5e-07'', VNone, VBool True]),
                       (''when'', VTime \<lparr>year = 2020, month = 1, day = 2, hour = 3, minute = 4, second = 5, microsecond = 0\<rparr>)])
       = [CHR ''{'', CHR 0x22] @ ''tags'' @ [CHR 0x22] @ '': [1, -2.5e-07, null, true], '' @ [CHR 0x22] @ ''when'' @ [CHR 0x22]
           @ '': '' @ [CHR 0x22] @ ''2020-01-02 03:04:05'' @ [CHR 0x22] @ ''}''"
proof -
  let ?V = "VDict [(''tags'', VList [VInt 1, VFloat ''-2.5e-07'', VNone, VBool True]),
                   (''when'', VTime \<lparr>year = 2020, month = 1, day = 2, hour = 3, minute = 4, second = 5, microsecond = 0\<rparr>)]"
  have l: "list_or_dict ?V" by code_simp
  have f: "finite_numbers ?V" by code_simp
  have lf: "list_or_dict ?V \<and> finite_numbers ?V" using l f by (rule conjI)
  have r: "json_loads (json_dumps ?V) = Some (stringified ?V)"
    using serialize_complex_data_spec [where v = ?V, THEN conjunct2, THEN conjunct1, THEN mp, OF lf] .
  have s: "stringified ?V = VDict [(''tags'', VList [VInt 1, VFloat ''-2.5e-07'', VNone, VBool True]),
                (''when'', VStr ''2020-01-02 03:04:05'')]"
    by code_simp
  have d: "json_dumps ?V
       = [CHR ''{'', CHR 0x22] @ ''tags'' @ [CHR 0x22] @ '': [1, -2.5e-07, null, true], '' @ [CHR 0x22] @ ''when'' @ [CHR 0x22]
           @ '': '' @ [CHR 0x22] @ ''2020-01-02 03:04:05'' @ [CHR 0x22] @ ''}''"
    by code_simp
  from l f r s d show ?thesis by (intro conjI)
qed


end
